theory Spec2Isabelle
  imports Complex_Main
begin

section \<open>Training recognition of auto-derby: the embedding\<close>

text \<open>
  The module \<^verbatim>\<open>auto_derby/scenes/single_mode/training.py\<close> recognises the training
  screen of the game.  Its image primitives (\<^verbatim>\<open>imagetools\<close>, \<^verbatim>\<open>template\<close>,
  \<^verbatim>\<open>ocr\<close>, \<^verbatim>\<open>mathtools\<close>) are collaborators outside the module: what they return
  is an argument of the functions below, and the control flow, the tables and the
  arithmetic of the module are translated line by line.  Python floats are read as
  real numbers.
\<close>

subsection \<open>Python values and exceptions\<close>

datatype py_error =
    ValueError
  | KeyError
  | IndexError
  | ZeroDivisionError
  | NotImplementedError
  | AssertionError
  | OverflowError

text \<open>Indexing a tuple: a negative index counts from the end, out of range raises.\<close>

definition tuple_getitem :: "int \<Rightarrow> 'a list \<Rightarrow> py_error + 'a" where
  "tuple_getitem i xs =
     (if - int (length xs) \<le> i \<and> i < 0 then Inr (xs ! nat (int (length xs) + i))
      else if 0 \<le> i \<and> i < int (length xs) then Inr (xs ! nat i)
      else Inl IndexError)"

subsection \<open>Training types and the vitality estimator\<close>

text \<open>
  \<^verbatim>\<open>Training.TYPE_*\<close> are constants of a class outside the module; the five the
  module names are constructors, every other value of the field is \<open>TYPE_OTHER\<close>.
\<close>

datatype training_type =
    TYPE_SPEED
  | TYPE_STAMINA
  | TYPE_POWER
  | TYPE_GUTS
  | TYPE_WISDOM
  | TYPE_OTHER nat

text \<open>The dictionary \<^verbatim>\<open>vit_data\<close> of \<^verbatim>\<open>_estimate_vitality\<close>.\<close>

definition vit_data :: "training_type \<rightharpoonup> int list" where
  "vit_data =
     [TYPE_SPEED \<mapsto> [-21, -22, -23, -25, -27],
      TYPE_STAMINA \<mapsto> [-19, -20, -21, -23, -25],
      TYPE_POWER \<mapsto> [-20, -21, -22, -24, -26],
      TYPE_GUTS \<mapsto> [-22, -23, -24, -26, -28],
      TYPE_WISDOM \<mapsto> [5, 5, 5, 5, 5]]"

text \<open>
  \<^verbatim>\<open>_estimate_vitality(ctx, trn)\<close>, with \<^verbatim>\<open>ctx.max_vitality\<close>, \<^verbatim>\<open>trn.type\<close> and
  \<^verbatim>\<open>trn.level\<close> as arguments: 0 for a type that is not a key, otherwise
  \<^verbatim>\<open>vit_data[trn.type][trn.level - 1] / ctx.max_vitality\<close>.
\<close>

definition estimate_vitality :: "int \<Rightarrow> training_type \<Rightarrow> int \<Rightarrow> py_error + real" where
  "estimate_vitality max_vitality ty level =
     (case vit_data ty of
        None \<Rightarrow> Inr 0
      | Some coeffs \<Rightarrow>
          (case tuple_getitem (level - 1) coeffs of
             Inl e \<Rightarrow> Inl e
           | Inr c \<Rightarrow>
               if max_vitality = 0 then Inl ZeroDivisionError
               else Inr (real_of_int c / real_of_int max_vitality)))"

subsection \<open>Scenarios and the resize proxy\<close>

text \<open>
  \<^verbatim>\<open>ctx.scenario\<close> is compared with seven constants of the class \<^verbatim>\<open>Context\<close>,
  which is outside the module; any other value of the field is \<open>SCENARIO_OTHER\<close>.
\<close>

datatype scenario =
    SCENARIO_URA
  | SCENARIO_AOHARU
  | SCENARIO_CLIMAX
  | SCENARIO_GRAND_MASTERS
  | SCENARIO_GRAND_LIVE
  | SCENARIO_PROJECT_LARK
  | SCENARIO_UAF_READY_GO
  | SCENARIO_OTHER string

definition supported_scenarios :: "scenario set" where
  "supported_scenarios =
     {SCENARIO_URA, SCENARIO_AOHARU, SCENARIO_CLIMAX, SCENARIO_GRAND_MASTERS,
      SCENARIO_GRAND_LIVE, SCENARIO_PROJECT_LARK, SCENARIO_UAF_READY_GO}"

text \<open>
  \<^verbatim>\<open>mathtools.ResizeProxy\<close> is outside the module.  Its \<^verbatim>\<open>vector(v, 540)\<close> is the
  argument \<open>rp\<close> of the functions below.
  Modelled from the spec: \<^verbatim>\<open>vector2\<close> and \<^verbatim>\<open>vector4\<close> of \<^verbatim>\<open>ResizeProxy\<close> are
  missing; coordinates in the 540-unit logical width are scaled by the proxy, here
  component by component.
\<close>

type_synonym resize_proxy = "int \<Rightarrow> int \<Rightarrow> int"
type_synonym vector2 = "int \<times> int"
type_synonym vector4 = "int \<times> int \<times> int \<times> int"

fun vector2 :: "resize_proxy \<Rightarrow> vector2 \<Rightarrow> int \<Rightarrow> vector2" where
  "vector2 rp (x, y) w = (rp x w, rp y w)"

fun vector4 :: "resize_proxy \<Rightarrow> vector4 \<Rightarrow> int \<Rightarrow> vector4" where
  "vector4 rp (l, t, r, b) w = (rp l w, rp t w, rp r w, rp b w)"

subsection \<open>Scenario geometry\<close>

text \<open>\<^verbatim>\<open>_iter_training_confirm_pos\<close>: one branch for Project Lark, one for the rest.\<close>

definition iter_training_confirm_pos ::
  "resize_proxy \<Rightarrow> scenario \<Rightarrow> py_error + vector2 list" where
  "iter_training_confirm_pos rp sc =
     (if sc = SCENARIO_PROJECT_LARK then
        Inr [vector2 rp (33, 835) 540,
             vector2 rp (121, 835) 540,
             vector2 rp (209, 835) 540,
             vector2 rp (297, 835) 540,
             vector2 rp (385, 835) 540]
      else
        Inr [vector2 rp (78, 850) 540,
             vector2 rp (171, 850) 540,
             vector2 rp (268, 850) 540,
             vector2 rp (367, 850) 540,
             vector2 rp (461, 850) 540])"

text \<open>The two callables that \<^verbatim>\<open>_effect_recognitions\<close> yields.\<close>

datatype effect_recognizer = Recognize_base_effect | Recognize_red_effect

definition bbox_groups :: "resize_proxy \<Rightarrow> int \<Rightarrow> int \<Rightarrow> vector4 list" where
  "bbox_groups rp t b =
     [vector4 rp (18, t, 104, b) 540,
      vector4 rp (104, t, 190, b) 540,
      vector4 rp (190, t, 273, b) 540,
      vector4 rp (273, t, 358, b) 540,
      vector4 rp (358, t, 441, b) 540,
      vector4 rp (448, t, 521, b) 540]"

text \<open>\<^verbatim>\<open>_effect_recognitions\<close>: the items the generator yields, or what it raises.\<close>

definition effect_recognitions ::
  "resize_proxy \<Rightarrow> scenario \<Rightarrow> py_error + (vector4 list \<times> effect_recognizer) list" where
  "effect_recognitions rp sc =
     (if sc = SCENARIO_URA then
        Inr [(bbox_groups rp 582 616, Recognize_base_effect)]
      else if sc = SCENARIO_AOHARU then
        Inr [(bbox_groups rp 597 625, Recognize_base_effect),
             (bbox_groups rp 570 595, Recognize_red_effect)]
      else if sc \<in> {SCENARIO_CLIMAX, SCENARIO_GRAND_LIVE, SCENARIO_GRAND_MASTERS,
                     SCENARIO_PROJECT_LARK, SCENARIO_UAF_READY_GO} then
        Inr [(bbox_groups rp 595 623, Recognize_base_effect),
             (bbox_groups rp 568 593, Recognize_red_effect)]
      else Inl NotImplementedError)"

text \<open>
  The dictionary literal of \<^verbatim>\<open>_recognize_partners\<close> (scenario to first icon box and
  vertical stride) and its subscription \<^verbatim>\<open>{...}[ctx.scenario]\<close>.
\<close>

definition partner_icon_table :: "resize_proxy \<Rightarrow> (scenario \<times> vector4 \<times> int) list" where
  "partner_icon_table rp =
     [(SCENARIO_URA, vector4 rp (448, 146, 516, 220) 540, rp 90 540),
      (SCENARIO_AOHARU, vector4 rp (448, 147, 516, 220) 540, rp 86 540),
      (SCENARIO_CLIMAX, vector4 rp (448, 147, 516, 220) 540, rp 90 540),
      (SCENARIO_GRAND_MASTERS, vector4 rp (448, 147, 516, 220) 540, rp 90 540),
      (SCENARIO_GRAND_LIVE, vector4 rp (448, 147, 516, 220) 540, rp 86 540),
      (SCENARIO_PROJECT_LARK, vector4 rp (448, 147, 516, 220) 540, rp 86 540),
      (SCENARIO_UAF_READY_GO, vector4 rp (448, 147, 516, 220) 540, rp 86 540)]"

definition partner_icon_layout ::
  "resize_proxy \<Rightarrow> scenario \<Rightarrow> py_error + (vector4 \<times> int)" where
  "partner_icon_layout rp sc =
     (case map_of (partner_icon_table rp) sc of
        None \<Rightarrow> Inl KeyError
      | Some v \<Rightarrow> Inr v)"

subsection \<open>Parsing OCR text\<close>

text \<open>
  A Python string is a list of code points.  \<^verbatim>\<open>int(s)\<close> of a string: the white space
  around it is dropped, one sign is read, and what is left must be decimal digits,
  possibly grouped by single underscores.  The digits are the ASCII ones and, above
  ASCII, the decimal digits of the interpreter's Unicode database
  (\<^verbatim>\<open>unicodedata.decimal\<close>).  That table is a field of the interpreter, next to its
  limit on the number of digits (\<^verbatim>\<open>sys.get_int_max_str_digits()\<close>, 0 where there is
  none), which is tested on more than 640 digits only.
\<close>

type_synonym py_str = "nat list"

record interpreter =
  int_max_str_digits :: nat
  unicode_decimal :: "nat \<Rightarrow> nat option"

definition is_space :: "nat \<Rightarrow> bool" where
  "is_space c \<longleftrightarrow>
     c \<in> {9, 10, 11, 12, 13, 32, 133, 160, 5760, 8232, 8233, 8239, 8287, 12288}
     \<or> (8192 \<le> c \<and> c \<le> 8202)"

definition digit_of :: "interpreter \<Rightarrow> nat \<Rightarrow> nat option" where
  "digit_of ip c =
     (if 48 \<le> c \<and> c \<le> 57 then Some (c - 48)
      else if c < 127 \<or> is_space c then None
      else case unicode_decimal ip c of
             None \<Rightarrow> None
           | Some d \<Rightarrow> if d < 10 then Some d else None)"

definition is_digit :: "interpreter \<Rightarrow> nat \<Rightarrow> bool" where
  "is_digit ip c \<longleftrightarrow> digit_of ip c \<noteq> None"

definition digit_val :: "interpreter \<Rightarrow> nat \<Rightarrow> nat" where
  "digit_val ip c = (case digit_of ip c of None \<Rightarrow> 0 | Some d \<Rightarrow> d)"

definition decimal :: "interpreter \<Rightarrow> py_str \<Rightarrow> nat" where
  "decimal ip ds = foldl (\<lambda>a c. 10 * a + digit_val ip c) 0 ds"

definition strip :: "py_str \<Rightarrow> py_str" where
  "strip s = rev (dropWhile is_space (rev (dropWhile is_space s)))"

text \<open>The code points of the minus sign, the plus sign and the underscore.\<close>

definition minus_sign :: nat where
  "minus_sign = 45"

definition plus_sign :: nat where
  "plus_sign = 43"

definition underscore :: nat where
  "underscore = 95"

fun no_double_underscore :: "py_str \<Rightarrow> bool" where
  "no_double_underscore (a # b # r) \<longleftrightarrow>
     (if a = underscore \<and> b = underscore then False else no_double_underscore (b # r))"
| "no_double_underscore _ \<longleftrightarrow> True"

definition literal_ok :: "interpreter \<Rightarrow> py_str \<Rightarrow> bool" where
  "literal_ok ip body \<longleftrightarrow>
     body \<noteq> [] \<and> list_all (\<lambda>c. is_digit ip c \<or> c = underscore) body
     \<and> hd body \<noteq> underscore \<and> last body \<noteq> underscore \<and> no_double_underscore body"

text \<open>The sign that is read, and what follows it.\<close>

definition int_negative :: "py_str \<Rightarrow> bool" where
  "int_negative s \<longleftrightarrow> strip s \<noteq> [] \<and> hd (strip s) = minus_sign"

definition int_body :: "py_str \<Rightarrow> py_str" where
  "int_body s =
     (let t = strip s
      in if t \<noteq> [] \<and> (hd t = minus_sign \<or> hd t = plus_sign) then tl t else t)"

definition exceeds_limit :: "interpreter \<Rightarrow> nat \<Rightarrow> bool" where
  "exceeds_limit ip n \<longleftrightarrow>
     640 < n \<and> 0 < int_max_str_digits ip \<and> int_max_str_digits ip < n"

definition py_int :: "interpreter \<Rightarrow> py_str \<Rightarrow> py_error + int" where
  "py_int ip s =
     (let body = int_body s;
          ds = filter (is_digit ip) body
      in if literal_ok ip body then
           if exceeds_limit ip (length ds) then Inl ValueError
           else Inr (if int_negative s then - int (decimal ip ds) else int (decimal ip ds))
         else Inl ValueError)"

text \<open>\<^verbatim>\<open>text.lstrip("+")\<close> drops every leading plus sign.\<close>

definition lstrip_plus :: "py_str \<Rightarrow> py_str" where
  "lstrip_plus s = dropWhile (\<lambda>c. c = plus_sign) s"

text \<open>\<^verbatim>\<open>re.sub("[^0-9]", "", text)\<close> keeps the ASCII digits.\<close>

definition is_ascii_digit :: "nat \<Rightarrow> bool" where
  "is_ascii_digit c \<longleftrightarrow> 48 \<le> c \<and> c \<le> 57"

definition sub_non_digits :: "py_str \<Rightarrow> py_str" where
  "sub_non_digits s = filter is_ascii_digit s"

text \<open>
  \<^verbatim>\<open>n / 100\<close> of an integer is the quotient rounded to a float, read here as the
  quotient itself; it raises \<^verbatim>\<open>OverflowError\<close> when the quotient rounds to \<open>2 ^ 1024\<close>
  or more, that is from \<open>2 ^ 1024 - 2 ^ 970\<close> on.
\<close>

definition float_limit_100 :: int where
  "float_limit_100 = 100 * (2 ^ 1024 - 2 ^ 970)"

definition true_divide_100 :: "int \<Rightarrow> py_error + real" where
  "true_divide_100 n =
     (if float_limit_100 \<le> \<bar>n\<bar> then Inl OverflowError else Inr (real_of_int n / 100))"

subsection \<open>Effect digits\<close>

text \<open>
  The glyph mask \<^verbatim>\<open>text_img\<close> as its three readers see it: \<^verbatim>\<open>cv2.countNonZero\<close>,
  \<^verbatim>\<open>imagetools.image_hash\<close> and \<^verbatim>\<open>ocr.text\<close>.
\<close>

record text_img =
  count_non_zero :: nat
  image_hash :: string
  ocr_reading :: py_str

text \<open>A call of \<^verbatim>\<open>ocr.text\<close>: the reading, and one more call counted.\<close>

definition ocr_text :: "text_img \<Rightarrow> nat \<Rightarrow> py_str \<times> nat" where
  "ocr_text img calls = (ocr_reading img, Suc calls)"

definition hash100 :: "string list" where
  "hash100 =
     [''000000000000006600ee00ff00ff00ff004e0000000000000000000000000000'',
      ''00000000000000000066007e007e007e007e005e005a00420000000000000000'']"

text \<open>
  The end of \<^verbatim>\<open>_recognize_base_effect\<close>, from the count of the mask on.
  \<open>compare_hash\<close> is \<^verbatim>\<open>imagetools.compare_hash\<close>; the last argument counts the calls
  of OCR so far, and the result carries the count afterwards.
\<close>

definition recognize_base_effect ::
  "interpreter \<Rightarrow> (string \<Rightarrow> string \<Rightarrow> real) \<Rightarrow> text_img \<Rightarrow> nat \<Rightarrow> (py_error + int) \<times> nat"
  where
  "recognize_base_effect ip compare_hash img calls =
     (if count_non_zero img < 100 then (Inr 0, calls)
      else
        let text_img_hash = image_hash img;
            hash_sim = Max (set (map (\<lambda>lst. compare_hash text_img_hash lst) hash100))
        in if hash_sim > 0.9 then (Inr 100, calls)
           else
             let (text, calls') = ocr_text img calls
             in if text = [] then (Inr 0, calls')
                else (py_int ip (lstrip_plus text), calls'))"

text \<open>The end of \<^verbatim>\<open>_recognize_red_effect\<close>.\<close>

definition recognize_red_effect ::
  "interpreter \<Rightarrow> text_img \<Rightarrow> nat \<Rightarrow> (py_error + int) \<times> nat" where
  "recognize_red_effect ip img calls =
     (let (text, calls') = ocr_text img calls
      in if text = [] then (Inr 0, calls')
         else (py_int ip (lstrip_plus text), calls'))"

subsection \<open>Failure rate\<close>

text \<open>
  The end of \<^verbatim>\<open>_recognize_failure_rate\<close>: \<^verbatim>\<open>int(re.sub("[^0-9]", "", text)) / 100\<close>
  on the text that OCR returns.
\<close>

definition recognize_failure_rate :: "interpreter \<Rightarrow> py_str \<Rightarrow> py_error + real" where
  "recognize_failure_rate ip text =
     (case py_int ip (sub_non_digits text) of
        Inl e \<Rightarrow> Inl e
      | Inr n \<Rightarrow> true_divide_100 n)"

subsection \<open>Partner icons\<close>

type_synonym color = "int \<times> int \<times> int"

text \<open>\<^verbatim>\<open>color[::-1]\<close> of a triple.\<close>

fun reversed :: "color \<Rightarrow> color" where
  "reversed (r, g, b) = (b, g, r)"

text \<open>
  What the collaborators report on one icon box of the screenshot:
  \<open>near pos color\<close> is \<^verbatim>\<open>imagetools.compare_color_near(cv_image(icon_img), pos, color)\<close>,
  the three averages are \<^verbatim>\<open>np.average\<close> of the masks of the hint, training and soul
  burst marks, \<open>is_full\<close> is \<^verbatim>\<open>any(template.match(...))\<close> on the full-gauge
  template, \<open>fg_avg\<close> and \<open>empty_avg\<close> are \<^verbatim>\<open>np.average\<close> of \<^verbatim>\<open>fg_mask2\<close> and of
  \<^verbatim>\<open>empty_mask\<close>.
\<close>

record icon_view =
  near :: "vector2 \<Rightarrow> color \<Rightarrow> real"
  hint_mask_avg :: real
  training_mask_avg :: real
  soul_burst_mask_avg :: real
  is_full :: bool
  fg_avg :: real
  empty_avg :: real

datatype partner_type =
    PARTNER_TYPE_SPEED
  | PARTNER_TYPE_STAMINA
  | PARTNER_TYPE_POWER
  | PARTNER_TYPE_GUTS
  | PARTNER_TYPE_WISDOM
  | PARTNER_TYPE_FRIEND
  | PARTNER_TYPE_GROUP
  | PARTNER_TYPE_TEAMMATE
  | PARTNER_TYPE_OTHER

record Partner =
  icon_bbox :: vector4
  level :: int
  soul :: real
  has_hint :: bool
  has_training :: bool
  has_soul_burst :: bool
  ptype :: partner_type

text \<open>\<^verbatim>\<open>_recognize_type_color\<close>: the first colour of the table that is near.\<close>

definition type_colors :: "(color \<times> partner_type) list" where
  "type_colors =
     [((36, 170, 255), PARTNER_TYPE_SPEED),
      ((255, 106, 86), PARTNER_TYPE_STAMINA),
      ((255, 151, 27), PARTNER_TYPE_POWER),
      ((255, 96, 156), PARTNER_TYPE_GUTS),
      ((3, 191, 126), PARTNER_TYPE_WISDOM),
      ((255, 179, 22), PARTNER_TYPE_FRIEND),
      ((249, 255, 240), PARTNER_TYPE_GROUP)]"

fun type_color_loop ::
  "(vector2 \<Rightarrow> color \<Rightarrow> real) \<Rightarrow> vector2 \<Rightarrow> (color \<times> partner_type) list \<Rightarrow> partner_type" where
  "type_color_loop cmp type_pos [] = PARTNER_TYPE_OTHER"
| "type_color_loop cmp type_pos ((color, v) # rest) =
     (if cmp type_pos (reversed color) > 0.9 then v
      else type_color_loop cmp type_pos rest)"

definition recognize_type_color :: "resize_proxy \<Rightarrow> icon_view \<Rightarrow> partner_type" where
  "recognize_type_color rp icon =
     type_color_loop (near icon) (vector2 rp (2, 2) 540) type_colors"

definition recognize_has_hint :: "icon_view \<Rightarrow> bool" where
  "recognize_has_hint icon \<longleftrightarrow> hint_mask_avg icon > 200"

definition recognize_has_training :: "scenario \<Rightarrow> icon_view \<Rightarrow> bool" where
  "recognize_has_training sc icon =
     (if sc \<noteq> SCENARIO_AOHARU then False else training_mask_avg icon > 80)"

definition recognize_has_soul_burst :: "scenario \<Rightarrow> icon_view \<Rightarrow> bool" where
  "recognize_has_soul_burst sc icon =
     (if sc \<noteq> SCENARIO_AOHARU then False else soul_burst_mask_avg icon > 80)"

text \<open>
  \<^verbatim>\<open>_recognize_partner_level\<close>: the positions, the colours and the table \<^verbatim>\<open>spec\<close> of
  six patterns, then the loop \<^verbatim>\<open>for level, s in enumerate(spec)\<close>.
\<close>

definition level_pos :: "resize_proxy \<Rightarrow> vector2 list" where
  "level_pos rp =
     [vector2 rp (10, 65) 540,
      vector2 rp (20, 65) 540,
      vector2 rp (33, 65) 540,
      vector2 rp (43, 65) 540,
      vector2 rp (55, 65) 540]"

definition level_colors :: "color list" where
  "level_colors =
     [(109, 108, 119),
      (42, 192, 255),
      (42, 192, 255),
      (162, 230, 30),
      (255, 173, 30),
      (255, 235, 120)]"

definition level_spec :: "resize_proxy \<Rightarrow> (vector2 \<times> color) list list" where
  "level_spec rp =
     (let pos = level_pos rp; colors = level_colors
      in [[(pos ! 0, colors ! 0), (pos ! 1, colors ! 0), (pos ! 2, colors ! 0),
           (pos ! 3, colors ! 0), (pos ! 4, colors ! 0)],
          [(pos ! 0, colors ! 1), (pos ! 1, colors ! 0), (pos ! 2, colors ! 0),
           (pos ! 3, colors ! 0), (pos ! 4, colors ! 0)],
          [(pos ! 0, colors ! 2), (pos ! 1, colors ! 2), (pos ! 3, colors ! 0),
           (pos ! 4, colors ! 0)],
          [(pos ! 0, colors ! 3), (pos ! 1, colors ! 3), (pos ! 2, colors ! 3),
           (pos ! 4, colors ! 0)],
          [(pos ! 0, colors ! 4), (pos ! 1, colors ! 4), (pos ! 2, colors ! 4),
           (pos ! 3, colors ! 4)],
          [(pos ! 0, colors ! 5), (pos ! 4, colors ! 5)]])"

text \<open>The condition \<^verbatim>\<open>all(compare_color_near(...) > 0.95 for pos, color in s)\<close>.\<close>

definition pattern_matches ::
  "(vector2 \<Rightarrow> color \<Rightarrow> real) \<Rightarrow> (vector2 \<times> color) list \<Rightarrow> bool" where
  "pattern_matches cmp s = list_all (\<lambda>(pos, color). cmp pos (reversed color) > 0.95) s"

fun partner_level_loop ::
  "(vector2 \<Rightarrow> color \<Rightarrow> real) \<Rightarrow> int \<Rightarrow> (vector2 \<times> color) list list \<Rightarrow> int" where
  "partner_level_loop cmp lv [] = -1"
| "partner_level_loop cmp lv (s # rest) =
     (if pattern_matches cmp s then lv else partner_level_loop cmp (lv + 1) rest)"

definition recognize_partner_level :: "resize_proxy \<Rightarrow> icon_view \<Rightarrow> int" where
  "recognize_partner_level rp icon = partner_level_loop (near icon) 0 (level_spec rp)"

text \<open>
  \<^verbatim>\<open>_recognize_soul\<close>, from the template match on: 1 when the gauge is full, -1 when
  the foreground is too thin, the clamped ratio otherwise.
\<close>

definition recognize_soul :: "icon_view \<Rightarrow> real" where
  "recognize_soul icon =
     (if is_full icon then 1
      else if fg_avg icon < 100 then -1
      else
        let outline_avg = 45
        in max 0 (min 1 (1 - (empty_avg icon / (fg_avg icon - outline_avg)))))"

text \<open>
  The locals \<^verbatim>\<open>soul\<close>, \<^verbatim>\<open>has_training\<close> and \<^verbatim>\<open>has_soul_burst\<close> of
  \<^verbatim>\<open>_recognize_partner_icon\<close> when its first \<^verbatim>\<open>if\<close> statement is over.
\<close>

definition icon_marks :: "scenario \<Rightarrow> icon_view \<Rightarrow> real \<times> bool \<times> bool" where
  "icon_marks sc icon =
     (if sc = SCENARIO_AOHARU then
        if recognize_has_soul_burst sc icon then (1, True, True)
        else (recognize_soul icon, recognize_has_training sc icon, False)
      else (-1, False, False))"

text \<open>\<^verbatim>\<open>_recognize_partner_icon\<close>; \<open>None\<close> is Python's \<^verbatim>\<open>None\<close>.\<close>

definition recognize_partner_icon ::
  "scenario \<Rightarrow> resize_proxy \<Rightarrow> (vector4 \<Rightarrow> icon_view) \<Rightarrow> vector4 \<Rightarrow> Partner option" where
  "recognize_partner_icon sc rp img bbox =
     (let icon = img bbox;
          lv = recognize_partner_level rp icon;
          (soul0, has_training0, has_soul_burst0) = icon_marks sc icon
      in if lv < 0 \<and> soul0 < 0 then None
         else
           let self = \<lparr>icon_bbox = bbox, level = lv, soul = soul0,
                       has_hint = recognize_has_hint icon,
                       has_training = has_training0,
                       has_soul_burst = has_soul_burst0,
                       ptype = PARTNER_TYPE_OTHER\<rparr>;
               self = (if has_soul_burst self
                       then self\<lparr>has_training := True, soul := 1\<rparr> else self);
               self = self\<lparr>ptype := recognize_type_color rp icon\<rparr>;
               self = (if soul0 \<ge> 0 \<and> ptype self = PARTNER_TYPE_OTHER
                       then self\<lparr>ptype := PARTNER_TYPE_TEAMMATE\<rparr> else self)
           in Some self)"

text \<open>
  The loop of \<^verbatim>\<open>_recognize_partners\<close>.  Its condition reads \<^verbatim>\<open>icon_bbox[2]\<close>, which
  the body never changes, so only \<^verbatim>\<open>break\<close> can end it: the result is \<open>None\<close> where
  it runs forever.  A \<^verbatim>\<open>Partner\<close> counts as true in \<^verbatim>\<open>if not v\<close>.
\<close>

partial_function (option) partners_loop ::
  "(vector4 \<Rightarrow> Partner option) \<Rightarrow> int \<Rightarrow> int \<Rightarrow> vector4 \<Rightarrow> Partner list \<Rightarrow> Partner list option"
  where
  "partners_loop recognize icon_y_offset icons_bottom bbox acc =
     (case bbox of (l, t, r, b) \<Rightarrow>
        if \<not> r < icons_bottom then Some acc
        else
          (case recognize bbox of
             None \<Rightarrow> Some acc
           | Some v \<Rightarrow>
               partners_loop recognize icon_y_offset icons_bottom
                 (l, t + icon_y_offset, r, b + icon_y_offset) (acc @ [v])))"

definition recognize_partners ::
  "scenario \<Rightarrow> resize_proxy \<Rightarrow> (vector4 \<Rightarrow> icon_view) \<Rightarrow> (py_error + Partner list) option" where
  "recognize_partners sc rp img =
     (case partner_icon_layout rp sc of
        Inl e \<Rightarrow> Some (Inl e)
      | Inr (bbox, icon_y_offset) \<Rightarrow>
          map_option Inr
            (partners_loop (recognize_partner_icon sc rp img) icon_y_offset
               (rp 578 540) bbox []))"

subsection \<open>The scene\<close>

record Training =
  trn_type :: training_type
  trn_level :: int
  confirm_position :: vector2

record Context =
  scenario :: scenario
  max_vitality :: int
  is_summer_camp :: bool
  trainings :: "Training list"
  training_levels :: "training_type \<rightharpoonup> int"

record TrainingScene =
  scene_trainings :: "Training list"

text \<open>
  \<^verbatim>\<open>tuple(i.result() for i in [...])\<close>: the results of the futures in the order of
  submission; the first one that holds an exception raises it.
\<close>

fun results :: "(py_error + 'a) list \<Rightarrow> py_error + 'a list" where
  "results [] = Inr []"
| "results (Inl e # rest) = Inl e"
| "results (Inr x # rest) =
     (case results rest of Inl e \<Rightarrow> Inl e | Inr xs \<Rightarrow> Inr (x # xs))"

text \<open>The dictionary \<^verbatim>\<open>{i.type: i.level for i in self.trainings}\<close>.\<close>

definition levels_of :: "Training list \<Rightarrow> training_type \<rightharpoonup> int" where
  "levels_of ts = foldl (\<lambda>m i. m(trn_type i \<mapsto> trn_level i)) Map.empty ts"

text \<open>
  \<^verbatim>\<open>TrainingScene.recognize_v2\<close> on the outcomes of the recognitions it submitted.
  The result is the exception raised, if any, with the scene and the context as the
  call leaves them.  The \<^verbatim>\<open>assert\<close> statement is executed.
\<close>

definition recognize_v2 ::
  "TrainingScene \<Rightarrow> Context \<Rightarrow> (py_error + Training) list
     \<Rightarrow> py_error option \<times> TrainingScene \<times> Context" where
  "recognize_v2 self ctx futures =
     (case results futures of
        Inl e \<Rightarrow> (Some e, self, ctx)
      | Inr ts \<Rightarrow>
          let self = self\<lparr>scene_trainings := ts\<rparr>
          in if card (set (map trn_type (scene_trainings self))) \<noteq> length (scene_trainings self)
             then (Some AssertionError, self, ctx)
             else
               let ctx = ctx\<lparr>trainings := scene_trainings self\<rparr>;
                   ctx = (if \<not> is_summer_camp ctx
                          then ctx\<lparr>training_levels := levels_of (scene_trainings self)\<rparr>
                          else ctx)
               in (None, self, ctx))"

subsection \<open>Example inputs\<close>

text \<open>
  Concrete inputs on which the theorems below are exercised: a proxy for a screenshot
  that is 540 wide (no scaling), an icon box on which nothing is detected, one with the
  soul burst mark, and one whose level dots are read pixel by pixel.
\<close>

definition example_rp :: resize_proxy where
  "example_rp v from = v"

definition blank_icon :: icon_view where
  "blank_icon =
     \<lparr>near = (\<lambda>pos color. 0), hint_mask_avg = 0, training_mask_avg = 0,
      soul_burst_mask_avg = 0, is_full = False, fg_avg = 0, empty_avg = 0\<rparr>"

definition burst_icon :: icon_view where
  "burst_icon = blank_icon\<lparr>soul_burst_mask_avg := 255\<rparr>"

definition exact_near :: "(vector2 \<Rightarrow> color) \<Rightarrow> vector2 \<Rightarrow> color \<Rightarrow> real" where
  "exact_near pixels pos color = (if pixels pos = color then 1 else 0)"

definition level2_pixels :: "vector2 \<Rightarrow> color" where
  "level2_pixels pos =
     (if pos = (10, 65) \<or> pos = (20, 65) then (255, 192, 42) else (119, 108, 109))"

definition level2_icon :: icon_view where
  "level2_icon = blank_icon\<lparr>near := exact_near level2_pixels\<rparr>"

definition example_scene :: TrainingScene where
  "example_scene = \<lparr>scene_trainings = []\<rparr>"

definition example_ctx :: Context where
  "example_ctx =
     \<lparr>scenario = SCENARIO_URA, max_vitality = 100, is_summer_camp = False,
      trainings = [], training_levels = Map.empty\<rparr>"

definition speed_training :: "vector2 \<Rightarrow> Training" where
  "speed_training p = \<lparr>trn_type = TYPE_SPEED, trn_level = 1, confirm_position = p\<rparr>"

definition power_training :: "vector2 \<Rightarrow> Training" where
  "power_training p = \<lparr>trn_type = TYPE_POWER, trn_level = 2, confirm_position = p\<rparr>"

text \<open>
  The code points of an ASCII literal, and the interpreter of Python 3.11: its limit of
  4300 digits and the decimal digits of Unicode 14, which come in runs of ten from the
  code points listed.
\<close>

definition text_of :: "string \<Rightarrow> py_str" where
  "text_of s = map of_char s"

definition unicode14_zeros :: "nat list" where
  "unicode14_zeros =
     [1632, 1776, 1984, 2406, 2534, 2662, 2790, 2918, 3046, 3174, 3302, 3430, 3558, 3664,
      3792, 3872, 4160, 4240, 6112, 6160, 6470, 6608, 6784, 6800, 6992, 7088, 7232, 7248,
      42528, 43216, 43264, 43472, 43504, 43600, 44016, 65296, 66720, 68912, 69734, 69872,
      69942, 70096, 70384, 70736, 70864, 71248, 71360, 71472, 71904, 72016, 72784, 73040,
      73120, 92768, 92864, 93008, 120782, 120792, 120802, 120812, 120822, 123200, 123632,
      125264, 130032]"

definition unicode14_decimal :: "nat \<Rightarrow> nat option" where
  "unicode14_decimal c =
     map_option (\<lambda>z. c - z) (find (\<lambda>z. z \<le> c \<and> c < z + 10) unicode14_zeros)"

definition example_interp :: interpreter where
  "example_interp = \<lparr>int_max_str_digits = 4300, unicode_decimal = unicode14_decimal\<rparr>"

definition example_text_img :: "nat \<Rightarrow> py_str \<Rightarrow> text_img" where
  "example_text_img n t = \<lparr>count_non_zero = n, image_hash = [], ocr_reading = t\<rparr>"

text \<open>An icon on which every colour comparison reports the similarity 1.\<close>

definition uniform_icon :: icon_view where
  "uniform_icon = blank_icon\<lparr>near := (\<lambda>pos color. 1)\<rparr>"

text \<open>A comparison of hashes that reports the same similarity for every pair.\<close>

definition example_compare_hash :: "real \<Rightarrow> string \<Rightarrow> string \<Rightarrow> real" where
  "example_compare_hash sim a b = sim"

text \<open>A screenshot whose first icon box of the URA layout shows a partner of level 2.\<close>

definition burst_img :: "vector4 \<Rightarrow> icon_view" where
  "burst_img bbox = burst_icon"

definition example_img :: "vector4 \<Rightarrow> icon_view" where
  "example_img bbox = (if bbox = (448, 146, 516, 220) then level2_icon else blank_icon)"

section \<open>Properties\<close>

subsection \<open>Vitality estimator\<close>

lemma vit_data_cases:
  "vit_data ty = Some coeffs \<Longrightarrow>
     ty \<in> {TYPE_SPEED, TYPE_STAMINA, TYPE_POWER, TYPE_GUTS, TYPE_WISDOM}"
  by (cases ty) (simp_all add: vit_data_def)

lemma vit_data_length: "vit_data ty = Some coeffs \<Longrightarrow> length coeffs = 5"
  by (cases ty) (auto simp: vit_data_def)

lemma level_cases:
  "(1::int) \<le> l \<Longrightarrow> l \<le> 5 \<Longrightarrow> l = 1 \<or> l = 2 \<or> l = 3 \<or> l = 4 \<or> l = 5"
  by arith

lemma all_below_6: "(\<forall>k<6. P k) \<longleftrightarrow> P 0 \<and> P 1 \<and> P 2 \<and> P 3 \<and> P 4 \<and> P (5::nat)"
proof -
  have "k < 6 \<longleftrightarrow> k = 0 \<or> k = 1 \<or> k = 2 \<or> k = 3 \<or> k = 4 \<or> k = 5" for k :: nat
    by arith
  then show ?thesis by auto
qed

lemma vit_data_sorted:
  assumes "ty \<in> {TYPE_SPEED, TYPE_STAMINA, TYPE_POWER, TYPE_GUTS}"
  shows "\<exists>cs. vit_data ty = Some cs \<and> length cs = 5 \<and> sorted_wrt (>) cs \<and> list_all (\<lambda>c. c < 0) cs"
  using assms by (auto simp: vit_data_def)

lemma estimate_vitality_known:
  assumes "vit_data ty = Some coeffs" and "1 \<le> l" and "l \<le> 5" and "mv \<noteq> 0"
  shows "estimate_vitality mv ty l = Inr (real_of_int (coeffs ! nat (l - 1)) / real_of_int mv)"
proof -
  have "length coeffs = 5" using assms(1) by (rule vit_data_length)
  then show ?thesis using assms by (simp add: estimate_vitality_def tuple_getitem_def Let_def)
qed

lemma estimate_vitality_negative:
  assumes ty: "ty \<in> {TYPE_SPEED, TYPE_STAMINA, TYPE_POWER, TYPE_GUTS}"
    and mv: "0 < mv" and l: "1 \<le> l" "l \<le> 5"
  shows "\<exists>v. estimate_vitality mv ty l = Inr v \<and> v < 0
           \<and> (\<forall>l'. l < l' \<and> l' \<le> 5 \<longrightarrow>
                 (\<exists>v'. estimate_vitality mv ty l' = Inr v' \<and> v' < 0 \<and> \<bar>v\<bar> < \<bar>v'\<bar>))"
proof -
  from vit_data_sorted [OF ty] obtain cs where cs: "vit_data ty = Some cs" "length cs = 5"
    "sorted_wrt (>) cs" "list_all (\<lambda>c. c < 0) cs" by blast
  have neg: "cs ! i < 0" if "i < 5" for i
    using cs(2,4) that by (simp add: list_all_length)
  have dec: "cs ! j < cs ! i" if "i < j" "j < 5" for i j
    using sorted_wrt_nth_less [OF cs(3), of i j] that cs(2) by simp
  let ?v = "\<lambda>l. real_of_int (cs ! nat (l - 1)) / real_of_int mv"
  have val: "estimate_vitality mv ty k = Inr (?v k)" if "1 \<le> k" "k \<le> 5" for k
    using estimate_vitality_known [OF cs(1) that] mv by simp
  have vneg: "?v k < 0" if "1 \<le> k" "k \<le> 5" for k
  proof -
    have "nat (k - 1) < 5" using that by simp
    then have "real_of_int (cs ! nat (k - 1)) < 0" using neg by simp
    then show ?thesis using mv by (simp add: divide_neg_pos)
  qed
  have grow: "\<bar>?v l\<bar> < \<bar>?v l'\<bar>" if "l < l'" "l' \<le> 5" for l'
  proof -
    have "nat (l - 1) < nat (l' - 1)" "nat (l' - 1) < 5" using that l by simp_all
    then have "cs ! nat (l' - 1) < cs ! nat (l - 1)" by (rule dec)
    then have "?v l' < ?v l" using mv by (simp add: divide_strict_right_mono)
    moreover have "?v l < 0" using l by (rule vneg)
    ultimately show ?thesis by arith
  qed
  show ?thesis
  proof (intro exI conjI allI impI)
    show "estimate_vitality mv ty l = Inr (?v l)" using l by (rule val)
    show "?v l < 0" using l by (rule vneg)
  next
    fix l' assume a: "l < l' \<and> l' \<le> 5"
    then have b: "1 \<le> l'" using l by simp
    show "estimate_vitality mv ty l' = Inr (?v l')" using b a by (simp add: val)
    show "?v l' < 0" using b a by (simp add: vneg)
    show "\<bar>?v l\<bar> < \<bar>?v l'\<bar>" using a grow by blast
  qed
qed

text \<open>
  Claim C7.  With a positive maximum vitality and a level from 1 to 5, the estimate of a
  wisdom training is positive; the estimate of a speed, stamina, power or guts training
  is negative and its magnitude grows strictly with every higher level up to 5; a type
  that is not in the table gives 0; and every estimate other than 0 is the coefficient of
  the table at that level divided by the maximum vitality.
\<close>

theorem estimate_vitality_table:
  assumes "0 < mv" and "1 \<le> l" and "l \<le> 5"
  shows "(\<exists>v. estimate_vitality mv TYPE_WISDOM l = Inr v \<and> 0 < v)
     \<and> (\<forall>ty \<in> {TYPE_SPEED, TYPE_STAMINA, TYPE_POWER, TYPE_GUTS}.
          \<exists>v. estimate_vitality mv ty l = Inr v \<and> v < 0
            \<and> (\<forall>l'. l < l' \<and> l' \<le> 5 \<longrightarrow>
                  (\<exists>v'. estimate_vitality mv ty l' = Inr v' \<and> v' < 0 \<and> \<bar>v\<bar> < \<bar>v'\<bar>)))
     \<and> (\<forall>ty. vit_data ty = None \<longrightarrow> estimate_vitality mv ty l = Inr 0)
     \<and> (\<forall>ty v. estimate_vitality mv ty l = Inr v \<and> v \<noteq> 0 \<longrightarrow>
          (\<exists>coeffs. vit_data ty = Some coeffs
             \<and> v = real_of_int (coeffs ! nat (l - 1)) / real_of_int mv))"
proof (intro conjI ballI allI impI)
  have w: "vit_data TYPE_WISDOM = Some [5, 5, 5, 5, 5]" by (simp add: vit_data_def)
  have "[5, 5, 5, 5, 5] ! nat (l - 1) = (5::int)"
    using level_cases [OF assms(2,3)] by auto
  then have "estimate_vitality mv TYPE_WISDOM l = Inr (5 / real_of_int mv)"
    using estimate_vitality_known [OF w assms(2,3)] assms(1) by simp
  then show "\<exists>v. estimate_vitality mv TYPE_WISDOM l = Inr v \<and> 0 < v"
    using assms(1) by simp
next
  fix ty assume "ty \<in> {TYPE_SPEED, TYPE_STAMINA, TYPE_POWER, TYPE_GUTS}"
  then show "\<exists>v. estimate_vitality mv ty l = Inr v \<and> v < 0
            \<and> (\<forall>l'. l < l' \<and> l' \<le> 5 \<longrightarrow>
                  (\<exists>v'. estimate_vitality mv ty l' = Inr v' \<and> v' < 0 \<and> \<bar>v\<bar> < \<bar>v'\<bar>))"
    using assms by (rule estimate_vitality_negative)
next
  fix ty assume "vit_data ty = None"
  then show "estimate_vitality mv ty l = Inr 0" by (simp add: estimate_vitality_def)
next
  fix ty v assume a: "estimate_vitality mv ty l = Inr v \<and> v \<noteq> 0"
  show "\<exists>coeffs. vit_data ty = Some coeffs
             \<and> v = real_of_int (coeffs ! nat (l - 1)) / real_of_int mv"
  proof (cases "vit_data ty")
    case None
    then show ?thesis using a by (simp add: estimate_vitality_def)
  next
    case (Some cs)
    then show ?thesis
      using a estimate_vitality_known [OF Some assms(2,3)] assms(1) by simp
  qed
qed

theorem estimate_vitality_table_witness:
  "(\<exists>v. estimate_vitality 100 TYPE_WISDOM 3 = Inr v \<and> 0 < v)
   \<and> (\<exists>v. estimate_vitality 100 TYPE_SPEED 3 = Inr v \<and> v < 0
        \<and> (\<exists>v'. estimate_vitality 100 TYPE_SPEED 4 = Inr v' \<and> v' < 0 \<and> \<bar>v\<bar> < \<bar>v'\<bar>))
   \<and> estimate_vitality 100 (TYPE_OTHER 7) 3 = Inr 0"
proof -
  have h: "(0::int) < 100" "(1::int) \<le> 3" "(3::int) \<le> 5" by simp_all
  note t = estimate_vitality_table [OF h]
  have n: "vit_data (TYPE_OTHER 7) = None" by (simp add: vit_data_def)
  from t have "\<exists>v. estimate_vitality 100 TYPE_WISDOM 3 = Inr v \<and> 0 < v" by blast
  moreover from t have "\<exists>v. estimate_vitality 100 TYPE_SPEED 3 = Inr v \<and> v < 0
        \<and> (\<exists>v'. estimate_vitality 100 TYPE_SPEED 4 = Inr v' \<and> v' < 0 \<and> \<bar>v\<bar> < \<bar>v'\<bar>)"
    by fastforce
  moreover from t n have "estimate_vitality 100 (TYPE_OTHER 7) 3 = Inr 0" by blast
  ultimately show ?thesis by blast
qed

subsection \<open>Distinct training types\<close>

text \<open>
  Two slots of one type: the call raises \<^verbatim>\<open>AssertionError\<close> and leaves the context as it
  was, but the scene already holds the two trainings in \<^verbatim>\<open>self.trainings\<close>.
\<close>

theorem recognize_v2_counterexample:
  "recognize_v2 example_scene example_ctx
     [Inr (speed_training (78, 850)), Inr (speed_training (171, 850))]
   = (Some AssertionError,
      \<lparr>scene_trainings = [speed_training (78, 850), speed_training (171, 850)]\<rparr>,
      example_ctx)
   \<and> scene_trainings example_scene = []"
  by (simp add: recognize_v2_def example_scene_def speed_training_def Let_def)

text \<open>
  Claim C1, amended.  When \<^verbatim>\<open>recognize_v2\<close> returns without an exception, the trainings
  of the scene and of the context are the recognised ones and their types are pairwise
  distinct: the set of types has as many members as there are trainings.  When two of
  the recognised trainings have the same type, the call raises \<^verbatim>\<open>AssertionError\<close>; the
  context is left as it was, and the scene holds the recognised trainings, duplicates
  included, in \<^verbatim>\<open>self.trainings\<close>.
\<close>

theorem recognize_v2_distinct_types:
  assumes "recognize_v2 self ctx futures = (err, self', ctx')"
  shows "(err = None \<longrightarrow>
            results futures = Inr (trainings ctx')
            \<and> scene_trainings self' = trainings ctx'
            \<and> distinct (map trn_type (trainings ctx'))
            \<and> card (set (map trn_type (trainings ctx'))) = length (trainings ctx'))
     \<and> (\<forall>ts i j. results futures = Inr ts \<and> i < j \<and> j < length ts
            \<and> trn_type (ts ! i) = trn_type (ts ! j) \<longrightarrow>
          err = Some AssertionError \<and> ctx' = ctx \<and> scene_trainings self' = ts)"
proof (cases "results futures")
  case (Inl e)
  then show ?thesis using assms by (auto simp: recognize_v2_def)
next
  case (Inr ts)
  show ?thesis
  proof (cases "card (set (map trn_type ts)) = length ts")
    case True
    then have d: "distinct (map trn_type ts)" by (metis card_distinct length_map)
    have e: "err = None" "trainings ctx' = ts" "scene_trainings self' = ts"
      using assms Inr True by (auto simp: recognize_v2_def Let_def split: if_splits)
    have "\<not> (i < j \<and> j < length ts \<and> trn_type (ts ! i) = trn_type (ts ! j))" for i j
      using d by (auto simp: distinct_conv_nth)
    then show ?thesis using e d True Inr by auto
  next
    case False
    then have "err = Some AssertionError" "ctx' = ctx" "scene_trainings self' = ts"
      using assms Inr by (auto simp: recognize_v2_def Let_def)
    then show ?thesis using Inr by simp
  qed
qed

theorem recognize_v2_distinct_types_witness:
  "fst (recognize_v2 example_scene example_ctx
          [Inr (speed_training (78, 850)), Inr (speed_training (171, 850))])
     = Some AssertionError
   \<and> snd (snd (recognize_v2 example_scene example_ctx
          [Inr (speed_training (78, 850)), Inr (speed_training (171, 850))]))
     = example_ctx
   \<and> scene_trainings (fst (snd (recognize_v2 example_scene example_ctx
          [Inr (speed_training (78, 850)), Inr (speed_training (171, 850))])))
     = [speed_training (78, 850), speed_training (171, 850)]
   \<and> fst (recognize_v2 example_scene example_ctx
          [Inr (speed_training (78, 850)), Inr (power_training (268, 850))])
     = None
   \<and> distinct (map trn_type (trainings (snd (snd (recognize_v2 example_scene example_ctx
          [Inr (speed_training (78, 850)), Inr (power_training (268, 850))])))))"
proof -
  let ?dup = "[Inr (speed_training (78, 850)), Inr (speed_training (171, 850))]"
  let ?ok = "[Inr (speed_training (78, 850)), Inr (power_training (268, 850))]"
  have a: "recognize_v2 example_scene example_ctx ?dup =
      (fst (recognize_v2 example_scene example_ctx ?dup),
       fst (snd (recognize_v2 example_scene example_ctx ?dup)),
       snd (snd (recognize_v2 example_scene example_ctx ?dup)))" by simp
  have b: "recognize_v2 example_scene example_ctx ?ok =
      (fst (recognize_v2 example_scene example_ctx ?ok),
       fst (snd (recognize_v2 example_scene example_ctx ?ok)),
       snd (snd (recognize_v2 example_scene example_ctx ?ok)))" by simp
  have "results ?dup = Inr [speed_training (78, 850), speed_training (171, 850)]
      \<and> (0::nat) < 1 \<and> 1 < length [speed_training (78, 850), speed_training (171, 850)]
      \<and> trn_type ([speed_training (78, 850), speed_training (171, 850)] ! 0)
          = trn_type ([speed_training (78, 850), speed_training (171, 850)] ! 1)"
    by (simp add: speed_training_def)
  with recognize_v2_distinct_types [OF a]
  have 1: "fst (recognize_v2 example_scene example_ctx ?dup) = Some AssertionError
      \<and> snd (snd (recognize_v2 example_scene example_ctx ?dup)) = example_ctx
      \<and> scene_trainings (fst (snd (recognize_v2 example_scene example_ctx ?dup)))
          = [speed_training (78, 850), speed_training (171, 850)]"
    by blast
  have n: "fst (recognize_v2 example_scene example_ctx ?ok) = None"
    by (simp add: recognize_v2_def speed_training_def power_training_def Let_def)
  with recognize_v2_distinct_types [OF b]
  have 2: "distinct (map trn_type (trainings (snd (snd (recognize_v2 example_scene example_ctx ?ok)))))"
    by blast
  from 1 n 2 show ?thesis by blast
qed

subsection \<open>Bond ratio\<close>

text \<open>
  Claim C2.  \<^verbatim>\<open>_recognize_soul\<close> returns -1 or a value from 0 to 1; it returns -1 when
  the full-gauge template does not match and the average of the foreground mask is
  below 100, and 1 when the template matches.
\<close>

theorem recognize_soul_range:
  "(recognize_soul icon = -1 \<or> (0 \<le> recognize_soul icon \<and> recognize_soul icon \<le> 1))
   \<and> (\<not> is_full icon \<and> fg_avg icon < 100 \<longrightarrow> recognize_soul icon = -1)
   \<and> (is_full icon \<longrightarrow> recognize_soul icon = 1)"
  by (simp add: recognize_soul_def Let_def)

theorem recognize_soul_range_witness:
  "recognize_soul blank_icon = -1
   \<and> recognize_soul (blank_icon\<lparr>is_full := True\<rparr>) = 1
   \<and> 0 \<le> recognize_soul (blank_icon\<lparr>fg_avg := 145, empty_avg := 50\<rparr>)
   \<and> recognize_soul (blank_icon\<lparr>fg_avg := 145, empty_avg := 50\<rparr>) \<le> 1"
proof -
  have 1: "\<not> is_full blank_icon \<and> fg_avg blank_icon < 100" by (simp add: blank_icon_def)
  have 2: "is_full (blank_icon\<lparr>is_full := True\<rparr>)" by simp
  have 3: "recognize_soul (blank_icon\<lparr>fg_avg := 145, empty_avg := 50\<rparr>) \<noteq> -1"
    by (simp add: recognize_soul_def blank_icon_def)
  from recognize_soul_range [of blank_icon] 1
    recognize_soul_range [of "blank_icon\<lparr>is_full := True\<rparr>"] 2
    recognize_soul_range [of "blank_icon\<lparr>fg_avg := 145, empty_avg := 50\<rparr>"] 3
  show ?thesis by blast
qed

subsection \<open>Integers read from text\<close>

lemma digit_facts:
  "is_digit ip c \<Longrightarrow>
     \<not> is_space c \<and> c \<noteq> minus_sign \<and> c \<noteq> plus_sign \<and> c \<noteq> underscore"
  by (auto simp: is_digit_def digit_of_def is_space_def minus_sign_def plus_sign_def
      underscore_def split: if_splits)

lemma ascii_digit_is_digit: "is_ascii_digit c \<Longrightarrow> is_digit ip c"
  by (simp add: is_ascii_digit_def is_digit_def digit_of_def)

lemma dropWhile_hd: "xs \<noteq> [] \<Longrightarrow> \<not> P (hd xs) \<Longrightarrow> dropWhile P xs = xs"
  by (cases xs) auto

lemma strip_digits:
  assumes "ds \<noteq> []" and "list_all (is_digit ip) ds"
  shows "strip ds = ds"
proof -
  have h: "is_digit ip (hd ds)" "is_digit ip (last ds)"
    using assms by (auto simp: list_all_iff)
  have 1: "dropWhile is_space ds = ds"
    using assms(1) h(1) digit_facts by (simp add: dropWhile_hd)
  have "hd (rev ds) = last ds" using assms(1) by (simp add: hd_rev)
  then have 2: "dropWhile is_space (rev ds) = rev ds"
    using assms(1) h(2) digit_facts by (simp add: dropWhile_hd)
  show ?thesis by (simp add: strip_def 1 2)
qed

lemma no_double_underscore_digits:
  "list_all (is_digit ip) ds \<Longrightarrow> no_double_underscore ds"
  by (induction ds rule: no_double_underscore.induct) (auto dest: digit_facts)

lemma literal_ok_digits:
  assumes "ds \<noteq> []" and "list_all (is_digit ip) ds"
  shows "literal_ok ip ds"
proof -
  have h: "is_digit ip (hd ds)" "is_digit ip (last ds)"
    using assms by (auto simp: list_all_iff)
  have "list_all (\<lambda>c. is_digit ip c \<or> c = underscore) ds"
    using assms(2) by (simp add: list_all_iff)
  then show ?thesis
    using assms h digit_facts no_double_underscore_digits
    by (auto simp: literal_ok_def)
qed

lemma int_body_digits:
  assumes "ds \<noteq> []" and "list_all (is_digit ip) ds"
  shows "int_body ds = ds" and "\<not> int_negative ds"
proof -
  have h: "is_digit ip (hd ds)" using assms by (auto simp: list_all_iff)
  then have s: "hd ds \<noteq> minus_sign" "hd ds \<noteq> plus_sign" using digit_facts by auto
  show "int_body ds = ds"
    using s strip_digits [OF assms] by (simp add: int_body_def Let_def)
  show "\<not> int_negative ds"
    using s strip_digits [OF assms] by (simp add: int_negative_def)
qed

lemma py_int_digits:
  assumes "ds \<noteq> []" and "list_all (is_digit ip) ds"
  shows "py_int ip ds =
     (if exceeds_limit ip (length ds) then Inl ValueError else Inr (int (decimal ip ds)))"
proof -
  have f: "filter (is_digit ip) ds = ds" using assms(2) by (simp add: list_all_iff)
  show ?thesis
    using f literal_ok_digits [OF assms] int_body_digits [OF assms]
    by (simp add: py_int_def Let_def)
qed

lemma py_int_negative:
  "py_int ip s = Inr v \<Longrightarrow> v < 0 \<Longrightarrow> int_negative s"
  by (auto simp: py_int_def Let_def split: if_splits)

lemma in_dropWhile: "x \<in> set xs \<Longrightarrow> \<not> P x \<Longrightarrow> x \<in> set (dropWhile P xs)"
  by (induction xs) auto

lemma in_tl: "x \<in> set xs \<Longrightarrow> x \<noteq> hd xs \<Longrightarrow> x \<in> set (tl xs)"
  by (cases xs) auto

lemma py_int_rejects:
  assumes "c \<in> set s" and "\<not> is_digit ip c" and "c \<noteq> underscore" and "\<not> is_space c"
    and "c \<noteq> plus_sign" and "c \<noteq> minus_sign"
  shows "py_int ip s = Inl ValueError"
proof -
  have "c \<in> set (rev (dropWhile is_space s))" using assms(1,4) by (simp add: in_dropWhile)
  then have "c \<in> set (dropWhile is_space (rev (dropWhile is_space s)))"
    using assms(4) by (rule in_dropWhile)
  then have t: "c \<in> set (strip s)" by (simp add: strip_def)
  have "c \<in> set (int_body s)"
    using t assms(5,6) by (auto simp: int_body_def Let_def intro: in_tl)
  then have "\<not> list_all (\<lambda>c. is_digit ip c \<or> c = underscore) (int_body s)"
    using assms(2,3) by (auto simp: list_all_iff)
  then have "\<not> literal_ok ip (int_body s)" by (simp add: literal_ok_def)
  then show ?thesis by (simp add: py_int_def Let_def)
qed

lemma sub_non_digits_digits: "list_all (is_digit ip) (sub_non_digits text)"
  by (simp add: sub_non_digits_def list_all_iff ascii_digit_is_digit)

lemma decimal_snoc: "decimal ip (ds @ [c]) = 10 * decimal ip ds + digit_val ip c"
  by (simp add: decimal_def)

lemma decimal_zeros: "decimal ip (ds @ replicate k 48) = decimal ip ds * 10 ^ k"
proof (induction k)
  case 0
  then show ?case by simp
next
  case (Suc k)
  have "ds @ replicate (Suc k) 48 = (ds @ replicate k 48) @ [48]"
    by (simp add: replicate_append_same)
  then have "decimal ip (ds @ replicate (Suc k) 48)
      = 10 * decimal ip (ds @ replicate k 48) + digit_val ip 48"
    by (simp only: decimal_snoc)
  then show ?case using Suc by (simp add: digit_val_def digit_of_def)
qed

subsection \<open>Failure rate\<close>

text \<open>A reading of 150 gives a failure rate of 1.5.\<close>

theorem recognize_failure_rate_counterexample:
  "recognize_failure_rate example_interp (text_of ''150'') = Inr (3 / 2) \<and> (1::real) < 3 / 2"
proof -
  have s: "sub_non_digits (text_of ''150'') = [49, 53, 48]"
    by (simp add: sub_non_digits_def text_of_def is_ascii_digit_def)
  have d: "list_all (is_digit example_interp) [49, 53, 48]"
    by (simp add: is_digit_def digit_of_def)
  have v: "decimal example_interp [49, 53, 48] = 150"
    by (simp add: decimal_def digit_val_def digit_of_def)
  have "py_int example_interp [49, 53, 48] = Inr 150"
    using py_int_digits [of "[49, 53, 48]" example_interp] d v
    by (simp add: exceeds_limit_def)
  then show ?thesis
    by (simp add: recognize_failure_rate_def s true_divide_100_def float_limit_100_def)
qed

text \<open>
  Claim C3, amended.  Let \<open>n\<close> be the number that the ASCII digits of the text spell.
  On a text without such a digit \<^verbatim>\<open>_recognize_failure_rate\<close> raises \<^verbatim>\<open>ValueError\<close>, and
  so it does when the digits are more than the limit of the interpreter.  Otherwise it
  raises \<^verbatim>\<open>OverflowError\<close> when \<open>n / 100\<close> is beyond the floats, that is when \<open>n\<close> is at
  least \<open>100 * (2 ^ 1024 - 2 ^ 970)\<close>, and else returns \<open>n / 100\<close>: the value is at
  least 0, and it is at most 1 exactly when \<open>n\<close> is at most 100.
\<close>

theorem recognize_failure_rate_digits:
  "(sub_non_digits text = [] \<longrightarrow> recognize_failure_rate ip text = Inl ValueError)
   \<and> (exceeds_limit ip (length (sub_non_digits text)) \<longrightarrow>
        recognize_failure_rate ip text = Inl ValueError)
   \<and> (sub_non_digits text \<noteq> [] \<and> \<not> exceeds_limit ip (length (sub_non_digits text))
        \<and> float_limit_100 \<le> int (decimal ip (sub_non_digits text)) \<longrightarrow>
        recognize_failure_rate ip text = Inl OverflowError)
   \<and> (sub_non_digits text \<noteq> [] \<and> \<not> exceeds_limit ip (length (sub_non_digits text))
        \<and> int (decimal ip (sub_non_digits text)) < float_limit_100 \<longrightarrow>
        recognize_failure_rate ip text = Inr (real (decimal ip (sub_non_digits text)) / 100)
        \<and> 0 \<le> real (decimal ip (sub_non_digits text)) / 100
        \<and> (real (decimal ip (sub_non_digits text)) / 100 \<le> 1
             \<longleftrightarrow> decimal ip (sub_non_digits text) \<le> 100))"
proof (intro conjI impI)
  assume "sub_non_digits text = []"
  then show "recognize_failure_rate ip text = Inl ValueError"
    by (simp add: recognize_failure_rate_def py_int_def int_body_def strip_def literal_ok_def)
next
  assume a: "exceeds_limit ip (length (sub_non_digits text))"
  then have "sub_non_digits text \<noteq> []" by (auto simp: exceeds_limit_def)
  from py_int_digits [OF this sub_non_digits_digits] a
  show "recognize_failure_rate ip text = Inl ValueError"
    by (simp add: recognize_failure_rate_def)
next
  assume a: "sub_non_digits text \<noteq> [] \<and> \<not> exceeds_limit ip (length (sub_non_digits text))
        \<and> float_limit_100 \<le> int (decimal ip (sub_non_digits text))"
  then have "sub_non_digits text \<noteq> []" by simp
  from py_int_digits [OF this sub_non_digits_digits] a
  show "recognize_failure_rate ip text = Inl OverflowError"
    by (simp add: recognize_failure_rate_def true_divide_100_def)
next
  assume a: "sub_non_digits text \<noteq> [] \<and> \<not> exceeds_limit ip (length (sub_non_digits text))
        \<and> int (decimal ip (sub_non_digits text)) < float_limit_100"
  then have "sub_non_digits text \<noteq> []" by simp
  from py_int_digits [OF this sub_non_digits_digits] a
  show "recognize_failure_rate ip text = Inr (real (decimal ip (sub_non_digits text)) / 100)"
    by (simp add: recognize_failure_rate_def true_divide_100_def)
  show "0 \<le> real (decimal ip (sub_non_digits text)) / 100" by simp
  show "real (decimal ip (sub_non_digits text)) / 100 \<le> 1
             \<longleftrightarrow> decimal ip (sub_non_digits text) \<le> 100" by simp
qed

theorem recognize_failure_rate_digits_witness:
  "recognize_failure_rate example_interp (text_of ''35%'') = Inr (35 / 100)
   \<and> recognize_failure_rate example_interp (text_of ''%'') = Inl ValueError
   \<and> recognize_failure_rate example_interp (replicate 4301 48) = Inl ValueError
   \<and> recognize_failure_rate example_interp (49 # replicate 311 48) = Inl OverflowError"
proof -
  have s: "sub_non_digits (text_of ''35%'') = [51, 53]" "sub_non_digits (text_of ''%'') = []"
    "sub_non_digits (replicate 4301 48) = replicate 4301 48"
    "sub_non_digits (49 # replicate 311 48) = 49 # replicate 311 48"
    by (simp_all add: sub_non_digits_def text_of_def is_ascii_digit_def)
  have d: "decimal example_interp [51, 53] = 35"
    by (simp add: decimal_def digit_val_def digit_of_def)
  have l: "\<not> exceeds_limit example_interp (length [51::nat, 53])"
    "exceeds_limit example_interp (length (replicate 4301 (48::nat)))"
    "\<not> exceeds_limit example_interp (length (49 # replicate 311 (48::nat)))"
    by (simp_all add: exceeds_limit_def example_interp_def)
  have "decimal example_interp ([49] @ replicate 311 48) = decimal example_interp [49] * 10 ^ 311"
    by (rule decimal_zeros)
  then have b: "decimal example_interp (49 # replicate 311 48) = 10 ^ 311"
    by (simp add: decimal_def digit_val_def digit_of_def)
  have f: "(35::int) < float_limit_100" "float_limit_100 \<le> int (10 ^ 311)"
    by (simp_all add: float_limit_100_def)
  have 1: "recognize_failure_rate example_interp (text_of ''35%'') = Inr (35 / 100)"
    using recognize_failure_rate_digits [of "text_of ''35%''" example_interp] s d l f
    by simp
  have 2: "recognize_failure_rate example_interp (text_of ''%'') = Inl ValueError"
    using recognize_failure_rate_digits [of "text_of ''%''" example_interp] s by simp
  have 3: "recognize_failure_rate example_interp (replicate 4301 48) = Inl ValueError"
    using recognize_failure_rate_digits [of "replicate 4301 48" example_interp] s l
    by simp
  have 4: "recognize_failure_rate example_interp (49 # replicate 311 48) = Inl OverflowError"
    using recognize_failure_rate_digits [of "49 # replicate 311 48" example_interp] s l b f
    by simp
  from 1 2 3 4 show ?thesis by simp
qed

subsection \<open>Scenarios without a layout\<close>

text \<open>For a scenario that is none of the seven, the confirm positions are the default ones.\<close>

theorem iter_training_confirm_pos_counterexample:
  "SCENARIO_OTHER ''unknown'' \<notin> supported_scenarios
   \<and> iter_training_confirm_pos example_rp (SCENARIO_OTHER ''unknown'') =
       Inr [(78, 850), (171, 850), (268, 850), (367, 850), (461, 850)]"
  by (simp add: supported_scenarios_def iter_training_confirm_pos_def example_rp_def)

lemma partner_icon_layout_unsupported:
  "sc \<notin> supported_scenarios \<Longrightarrow> partner_icon_layout rp sc = Inl KeyError"
  by (simp add: supported_scenarios_def partner_icon_layout_def partner_icon_table_def)

text \<open>
  Claim C4, amended.  For a scenario outside the supported set, \<^verbatim>\<open>_effect_recognitions\<close>
  raises \<^verbatim>\<open>NotImplementedError\<close> and the layout of the partner icons raises
  \<^verbatim>\<open>KeyError\<close>, so that \<^verbatim>\<open>_recognize_partners\<close> yields nothing and raises it;
  \<^verbatim>\<open>_iter_training_confirm_pos\<close> raises nothing and returns the five positions of its
  default layout.
\<close>

theorem unsupported_scenario_lookups:
  assumes "sc \<notin> supported_scenarios"
  shows "effect_recognitions rp sc = Inl NotImplementedError
     \<and> partner_icon_layout rp sc = Inl KeyError
     \<and> recognize_partners sc rp img = Some (Inl KeyError)
     \<and> iter_training_confirm_pos rp sc =
         Inr [vector2 rp (78, 850) 540, vector2 rp (171, 850) 540, vector2 rp (268, 850) 540,
              vector2 rp (367, 850) 540, vector2 rp (461, 850) 540]"
proof (intro conjI)
  show "effect_recognitions rp sc = Inl NotImplementedError"
    using assms by (simp add: supported_scenarios_def effect_recognitions_def)
  show l: "partner_icon_layout rp sc = Inl KeyError"
    using assms by (rule partner_icon_layout_unsupported)
  show "recognize_partners sc rp img = Some (Inl KeyError)"
    by (simp add: recognize_partners_def l)
  show "iter_training_confirm_pos rp sc =
         Inr [vector2 rp (78, 850) 540, vector2 rp (171, 850) 540, vector2 rp (268, 850) 540,
              vector2 rp (367, 850) 540, vector2 rp (461, 850) 540]"
    using assms by (auto simp: supported_scenarios_def iter_training_confirm_pos_def)
qed

theorem unsupported_scenario_lookups_witness:
  "effect_recognitions example_rp (SCENARIO_OTHER ''unknown'') = Inl NotImplementedError
   \<and> partner_icon_layout example_rp (SCENARIO_OTHER ''unknown'') = Inl KeyError
   \<and> recognize_partners (SCENARIO_OTHER ''unknown'') example_rp example_img = Some (Inl KeyError)"
proof -
  have "SCENARIO_OTHER ''unknown'' \<notin> supported_scenarios"
    by (simp add: supported_scenarios_def)
  from unsupported_scenario_lookups [OF this, of example_rp example_img]
  show ?thesis by simp
qed

subsection \<open>Effect digits read by OCR\<close>

lemma effect_ocr_result:
  assumes "r = recognize_base_effect ip ch img calls \<or> r = recognize_red_effect ip img calls"
    and "snd r = Suc calls"
  shows "fst r = (if ocr_reading img = [] then Inr 0
                  else py_int ip (lstrip_plus (ocr_reading img)))"
  using assms
  by (auto simp: recognize_base_effect_def recognize_red_effect_def ocr_text_def Let_def
      split: if_splits)

lemma py_int_cases:
  "py_int ip s =
     (if literal_ok ip (int_body s)
         \<and> \<not> exceeds_limit ip (length (filter (is_digit ip) (int_body s)))
      then Inr (if int_negative s then - int (decimal ip (filter (is_digit ip) (int_body s)))
                else int (decimal ip (filter (is_digit ip) (int_body s))))
      else Inl ValueError)"
  by (simp add: py_int_def Let_def)

text \<open>A reading with a minus sign gives a negative effect, in both recognisers.\<close>

theorem recognize_red_effect_counterexample:
  "recognize_red_effect example_interp (example_text_img 200 (text_of ''-5'')) 0
       = (Inr (- 5), 1)
   \<and> recognize_base_effect example_interp (example_compare_hash 0)
        (example_text_img 200 (text_of ''-5'')) 0
       = (Inr (- 5), 1)"
proof -
  have "py_int example_interp (lstrip_plus (text_of ''-5'')) = Inr (- 5)"
    by (simp add: py_int_def int_body_def int_negative_def lstrip_plus_def text_of_def
        strip_def is_space_def literal_ok_def is_digit_def digit_of_def decimal_def
        digit_val_def exceeds_limit_def minus_sign_def plus_sign_def underscore_def Let_def)
  then show ?thesis
    by (simp add: recognize_red_effect_def recognize_base_effect_def example_text_img_def
        example_compare_hash_def hash100_def ocr_text_def text_of_def Let_def)
qed

text \<open>
  Claim C5, amended.  In both effect recognisers, when OCR is invoked: an empty reading
  gives 0; otherwise the leading plus signs are dropped and the rest is parsed by
  \<^verbatim>\<open>int\<close>.  The rest is numeric when, the white space around it and one sign aside, it
  consists of digits, possibly grouped by single underscores, that are not more than
  the limit of the interpreter: then the integer they spell is returned, negated when
  the sign is a minus, so that a rest of digits alone gives a value that is not
  negative and a negative value comes from a minus sign only.  Every other reading
  raises \<^verbatim>\<open>ValueError\<close>, among them every reading with a character that is neither a
  digit, an underscore, white space nor a sign.
\<close>

theorem effect_ocr_parse:
  assumes "r = recognize_base_effect ip ch img calls \<or> r = recognize_red_effect ip img calls"
    and "snd r = Suc calls"
  shows "(ocr_reading img = [] \<longrightarrow> fst r = Inr 0)
     \<and> (ocr_reading img \<noteq> []
          \<and> literal_ok ip (int_body (lstrip_plus (ocr_reading img)))
          \<and> \<not> exceeds_limit ip
                (length (filter (is_digit ip) (int_body (lstrip_plus (ocr_reading img))))) \<longrightarrow>
        fst r = Inr ((if int_negative (lstrip_plus (ocr_reading img)) then - 1 else 1)
                  * int (decimal ip
                      (filter (is_digit ip) (int_body (lstrip_plus (ocr_reading img)))))))
     \<and> (ocr_reading img \<noteq> []
          \<and> \<not> (literal_ok ip (int_body (lstrip_plus (ocr_reading img)))
               \<and> \<not> exceeds_limit ip
                  (length (filter (is_digit ip) (int_body (lstrip_plus (ocr_reading img))))))
          \<longrightarrow> fst r = Inl ValueError)
     \<and> (lstrip_plus (ocr_reading img) \<noteq> []
          \<and> list_all (is_digit ip) (lstrip_plus (ocr_reading img))
          \<and> \<not> exceeds_limit ip (length (lstrip_plus (ocr_reading img))) \<longrightarrow>
        fst r = Inr (int (decimal ip (lstrip_plus (ocr_reading img))))
        \<and> (0::int) \<le> int (decimal ip (lstrip_plus (ocr_reading img))))
     \<and> (\<forall>v. fst r = Inr v \<and> v < 0 \<longrightarrow> int_negative (lstrip_plus (ocr_reading img)))
     \<and> (\<forall>c. c \<in> set (ocr_reading img) \<and> \<not> is_digit ip c \<and> c \<noteq> underscore
            \<and> \<not> is_space c \<and> c \<noteq> plus_sign \<and> c \<noteq> minus_sign \<longrightarrow>
          fst r = Inl ValueError)"
proof -
  note f = effect_ocr_result [OF assms]
  show ?thesis
  proof (intro conjI allI impI)
    assume "ocr_reading img = []"
    then show "fst r = Inr 0" by (simp add: f)
  next
    assume "ocr_reading img \<noteq> []
          \<and> literal_ok ip (int_body (lstrip_plus (ocr_reading img)))
          \<and> \<not> exceeds_limit ip
                (length (filter (is_digit ip) (int_body (lstrip_plus (ocr_reading img)))))"
    then show "fst r = Inr ((if int_negative (lstrip_plus (ocr_reading img)) then - 1 else 1)
                  * int (decimal ip
                      (filter (is_digit ip) (int_body (lstrip_plus (ocr_reading img))))))"
      by (simp add: f py_int_cases)
  next
    assume "ocr_reading img \<noteq> []
          \<and> \<not> (literal_ok ip (int_body (lstrip_plus (ocr_reading img)))
               \<and> \<not> exceeds_limit ip
                  (length (filter (is_digit ip) (int_body (lstrip_plus (ocr_reading img))))))"
    then show "fst r = Inl ValueError"
      by (auto simp: f py_int_cases)
  next
    assume a: "lstrip_plus (ocr_reading img) \<noteq> []
          \<and> list_all (is_digit ip) (lstrip_plus (ocr_reading img))
          \<and> \<not> exceeds_limit ip (length (lstrip_plus (ocr_reading img)))"
    then have "ocr_reading img \<noteq> []" by (auto simp: lstrip_plus_def)
    then show "fst r = Inr (int (decimal ip (lstrip_plus (ocr_reading img))))"
      using a by (simp add: f py_int_digits)
    show "(0::int) \<le> int (decimal ip (lstrip_plus (ocr_reading img)))" by simp
  next
    fix v assume a: "fst r = Inr v \<and> v < 0"
    then have "ocr_reading img \<noteq> []" using f by auto
    then have "py_int ip (lstrip_plus (ocr_reading img)) = Inr v" using a f by simp
    then show "int_negative (lstrip_plus (ocr_reading img))"
      using a by (simp add: py_int_negative)
  next
    fix c assume a: "c \<in> set (ocr_reading img) \<and> \<not> is_digit ip c \<and> c \<noteq> underscore
            \<and> \<not> is_space c \<and> c \<noteq> plus_sign \<and> c \<noteq> minus_sign"
    then have n: "ocr_reading img \<noteq> []" by auto
    have "c \<in> set (lstrip_plus (ocr_reading img))"
      using a by (simp add: lstrip_plus_def in_dropWhile)
    then have "py_int ip (lstrip_plus (ocr_reading img)) = Inl ValueError"
      using a by (simp add: py_int_rejects)
    then show "fst r = Inl ValueError" using n by (simp add: f)
  qed
qed

lemma example_readings:
  "lstrip_plus (text_of ''+12'') = [49, 50]"
  "int_body (lstrip_plus (text_of ''5-'')) = [53, 45]"
  "int_body (lstrip_plus (text_of ''--5'')) = [45, 53]"
  "int_body (lstrip_plus (text_of ''1 2'')) = [49, 32, 50]"
  "int_body (lstrip_plus (text_of ''+'')) = []"
  "int_body (lstrip_plus [65297, 65298]) = [65297, 65298]"
  "\<not> int_negative (lstrip_plus [65297, 65298])"
  by (simp_all add: lstrip_plus_def int_body_def int_negative_def text_of_def strip_def
      is_space_def minus_sign_def plus_sign_def Let_def)

lemma example_literals:
  "\<not> literal_ok example_interp [53, 45]"
  "\<not> literal_ok example_interp [45, 53]"
  "\<not> literal_ok example_interp [49, 32, 50]"
  "\<not> literal_ok example_interp []"
  by (simp_all add: literal_ok_def is_digit_def digit_of_def is_space_def underscore_def)

lemma fullwidth_digits:
  "digit_of example_interp 65297 = Some 1"
  "digit_of example_interp 65298 = Some 2"
  by (simp_all add: digit_of_def is_space_def example_interp_def unicode14_decimal_def
      unicode14_zeros_def)

lemma fullwidth_literal:
  "literal_ok example_interp [65297, 65298]"
  "filter (is_digit example_interp) [65297, 65298] = [65297, 65298]"
  "decimal example_interp [65297, 65298] = 12"
  by (simp_all add: literal_ok_def is_digit_def decimal_def digit_val_def fullwidth_digits
      underscore_def)

theorem effect_ocr_parse_witness:
  "fst (recognize_red_effect example_interp (example_text_img 200 (text_of ''+12'')) 0)
     = Inr 12
   \<and> fst (recognize_red_effect example_interp (example_text_img 200 []) 0) = Inr 0
   \<and> fst (recognize_red_effect example_interp (example_text_img 200 [65297, 65298]) 0)
       = Inr 12
   \<and> fst (recognize_base_effect example_interp (example_compare_hash 0)
        (example_text_img 200 (text_of ''5-'')) 0) = Inl ValueError
   \<and> fst (recognize_base_effect example_interp (example_compare_hash 0)
        (example_text_img 200 (text_of ''--5'')) 0) = Inl ValueError
   \<and> fst (recognize_base_effect example_interp (example_compare_hash 0)
        (example_text_img 200 (text_of ''1 2'')) 0) = Inl ValueError
   \<and> fst (recognize_base_effect example_interp (example_compare_hash 0)
        (example_text_img 200 (text_of ''+'')) 0) = Inl ValueError
   \<and> fst (recognize_base_effect example_interp (example_compare_hash 0)
        (example_text_img 200 (text_of ''1O'')) 0) = Inl ValueError"
proof -
  have red: "snd (recognize_red_effect example_interp (example_text_img 200 t) 0) = Suc 0"
    for t
    by (simp add: recognize_red_effect_def ocr_text_def Let_def split: prod.splits)
  have base: "snd (recognize_base_effect example_interp (example_compare_hash 0)
      (example_text_img 200 t) 0) = Suc 0" for t
    by (simp add: recognize_base_effect_def ocr_text_def example_text_img_def
        example_compare_hash_def hash100_def Let_def)
  have o: "ocr_reading (example_text_img 200 t) = t" for t
    by (simp add: example_text_img_def)
  have ne: "text_of ''5-'' \<noteq> []" "text_of ''--5'' \<noteq> []" "text_of ''1 2'' \<noteq> []"
    "text_of ''+'' \<noteq> []"
    by (simp_all add: text_of_def)
  have d: "list_all (is_digit example_interp) [49, 50]" "decimal example_interp [49, 50] = 12"
    "\<not> exceeds_limit example_interp (length [49::nat, 50])"
    "\<not> exceeds_limit example_interp (length [65297::nat, 65298])"
    by (simp_all add: is_digit_def digit_of_def decimal_def digit_val_def exceeds_limit_def)
  have c: "CHR ''O'' \<in> set ''1O''" by simp
  have oh: "of_char CHR ''O'' \<in> set (text_of ''1O'')
      \<and> \<not> is_digit example_interp (of_char CHR ''O'') \<and> of_char CHR ''O'' \<noteq> underscore
      \<and> \<not> is_space (of_char CHR ''O'') \<and> of_char CHR ''O'' \<noteq> plus_sign
      \<and> of_char CHR ''O'' \<noteq> minus_sign"
    by (simp add: text_of_def is_digit_def digit_of_def is_space_def underscore_def
        plus_sign_def minus_sign_def)
  have 1: "fst (recognize_red_effect example_interp (example_text_img 200 (text_of ''+12'')) 0)
      = Inr 12"
    using effect_ocr_parse [of _ example_interp "example_compare_hash 0"
        "example_text_img 200 (text_of ''+12'')" 0, OF disjI2 [OF refl] red]
      example_readings(1) d
    by (simp add: o)
  have 2: "fst (recognize_red_effect example_interp (example_text_img 200 []) 0) = Inr 0"
    using effect_ocr_parse [of _ example_interp "example_compare_hash 0"
        "example_text_img 200 []" 0, OF disjI2 [OF refl] red]
    by (simp add: o)
  have 3: "fst (recognize_red_effect example_interp (example_text_img 200 [65297, 65298]) 0)
      = Inr 12"
    using effect_ocr_parse [of _ example_interp "example_compare_hash 0"
        "example_text_img 200 [65297, 65298]" 0, OF disjI2 [OF refl] red]
      example_readings(6,7) fullwidth_literal d(4)
    by (simp add: o)
  have 4: "fst (recognize_base_effect example_interp (example_compare_hash 0)
        (example_text_img 200 (text_of ''5-'')) 0) = Inl ValueError"
    using effect_ocr_parse [of _ example_interp "example_compare_hash 0"
        "example_text_img 200 (text_of ''5-'')" 0, OF disjI1 [OF refl] base]
      example_readings(2) example_literals(1) ne(1)
    by (simp add: o)
  have 5: "fst (recognize_base_effect example_interp (example_compare_hash 0)
        (example_text_img 200 (text_of ''--5'')) 0) = Inl ValueError"
    using effect_ocr_parse [of _ example_interp "example_compare_hash 0"
        "example_text_img 200 (text_of ''--5'')" 0, OF disjI1 [OF refl] base]
      example_readings(3) example_literals(2) ne(2)
    by (simp add: o)
  have 6: "fst (recognize_base_effect example_interp (example_compare_hash 0)
        (example_text_img 200 (text_of ''1 2'')) 0) = Inl ValueError"
    using effect_ocr_parse [of _ example_interp "example_compare_hash 0"
        "example_text_img 200 (text_of ''1 2'')" 0, OF disjI1 [OF refl] base]
      example_readings(4) example_literals(3) ne(3)
    by (simp add: o)
  have 7: "fst (recognize_base_effect example_interp (example_compare_hash 0)
        (example_text_img 200 (text_of ''+'')) 0) = Inl ValueError"
    using effect_ocr_parse [of _ example_interp "example_compare_hash 0"
        "example_text_img 200 (text_of ''+'')" 0, OF disjI1 [OF refl] base]
      example_readings(5) example_literals(4) ne(4)
    by (simp add: o)
  have 8: "fst (recognize_base_effect example_interp (example_compare_hash 0)
        (example_text_img 200 (text_of ''1O'')) 0) = Inl ValueError"
    using effect_ocr_parse [of _ example_interp "example_compare_hash 0"
        "example_text_img 200 (text_of ''1O'')" 0, OF disjI1 [OF refl] base]
      oh
    by (auto simp: o)
  from 1 2 3 4 5 6 7 8 show ?thesis by simp
qed

subsection \<open>Shortcuts of the base effect\<close>

text \<open>
  A mask of 50 pixels whose hash is 0.95 similar to the table gives 0: the count of the
  mask is tested first.
\<close>

theorem recognize_base_effect_counterexample:
  "example_compare_hash (19 / 20) (image_hash (example_text_img 50 [])) (hd hash100) > 0.9
   \<and> recognize_base_effect example_interp (example_compare_hash (19 / 20)) (example_text_img 50 []) 0
       = (Inr 0, 0)"
  by (simp add: recognize_base_effect_def example_text_img_def example_compare_hash_def
      hash100_def)

text \<open>
  Claim C6, amended.  When the glyph mask has fewer than 100 foreground pixels,
  \<^verbatim>\<open>_recognize_base_effect\<close> returns 0 without invoking OCR.  When it has at least 100
  and the similarity of its hash to an entry of the table of +100 exceeds 0.9, it
  returns 100 without invoking OCR.
\<close>

theorem recognize_base_effect_shortcuts:
  "(count_non_zero img < 100 \<longrightarrow>
      recognize_base_effect ip ch img calls = (Inr 0, calls))
   \<and> (\<not> count_non_zero img < 100 \<and> (\<exists>h \<in> set hash100. ch (image_hash img) h > 0.9) \<longrightarrow>
      recognize_base_effect ip ch img calls = (Inr 100, calls))"
proof (intro conjI impI)
  assume "count_non_zero img < 100"
  then show "recognize_base_effect ip ch img calls = (Inr 0, calls)"
    by (simp add: recognize_base_effect_def)
next
  assume a: "\<not> count_non_zero img < 100 \<and> (\<exists>h \<in> set hash100. ch (image_hash img) h > 0.9)"
  then obtain h where h: "h \<in> set hash100" "ch (image_hash img) h > 0.9" by blast
  let ?S = "set (map (\<lambda>lst. ch (image_hash img) lst) hash100)"
  have "ch (image_hash img) h \<in> ?S" using h(1) by simp
  then have "ch (image_hash img) h \<le> Max ?S" by (rule Max_ge [rotated]) simp
  then have "Max ?S > 0.9" using h(2) by simp
  then show "recognize_base_effect ip ch img calls = (Inr 100, calls)"
    using a by (simp add: recognize_base_effect_def Let_def)
qed

theorem recognize_base_effect_shortcuts_witness:
  "recognize_base_effect example_interp (example_compare_hash (19 / 20)) (example_text_img 400 [55]) 3
     = (Inr 100, 3)
   \<and> recognize_base_effect example_interp (example_compare_hash 0) (example_text_img 50 [55]) 3
     = (Inr 0, 3)"
proof -
  have 1: "\<not> count_non_zero (example_text_img 400 [55]) < 100
      \<and> (\<exists>h \<in> set hash100. example_compare_hash (19 / 20)
             (image_hash (example_text_img 400 [55])) h > 0.9)"
    by (auto simp: example_text_img_def example_compare_hash_def hash100_def)
  have 2: "count_non_zero (example_text_img 50 [55]) < 100"
    by (simp add: example_text_img_def)
  from recognize_base_effect_shortcuts
         [of "example_text_img 400 [55]" example_interp "example_compare_hash (19 / 20)" 3] 1
       recognize_base_effect_shortcuts
         [of "example_text_img 50 [55]" example_interp "example_compare_hash 0" 3] 2
  show ?thesis by blast
qed

subsection \<open>Soul burst\<close>

text \<open>
  Claim C10.  For every Partner that \<^verbatim>\<open>_recognize_partner_icon\<close> returns: if
  \<^verbatim>\<open>has_soul_burst\<close> is true then \<^verbatim>\<open>has_training\<close> is true and \<^verbatim>\<open>soul\<close> is 1; and in
  every scenario other than Aoharu \<^verbatim>\<open>has_soul_burst\<close> and \<^verbatim>\<open>has_training\<close> are false
  and \<^verbatim>\<open>soul\<close> is -1.
\<close>

theorem partner_soul_burst_flags:
  assumes "recognize_partner_icon sc rp img bbox = Some p"
  shows "(has_soul_burst p \<longrightarrow> has_training p \<and> soul p = 1)
     \<and> (sc \<noteq> SCENARIO_AOHARU \<longrightarrow>
          \<not> has_soul_burst p \<and> \<not> has_training p \<and> soul p = - 1)"
  using assms
  by (auto simp: recognize_partner_icon_def icon_marks_def Let_def
      recognize_has_soul_burst_def recognize_has_training_def split: if_splits)

theorem partner_soul_burst_flags_witness:
  "has_soul_burst (the (recognize_partner_icon SCENARIO_AOHARU example_rp
      burst_img (448, 147, 516, 220)))
   \<and> has_training (the (recognize_partner_icon SCENARIO_AOHARU example_rp
      burst_img (448, 147, 516, 220)))
   \<and> soul (the (recognize_partner_icon SCENARIO_AOHARU example_rp
      burst_img (448, 147, 516, 220))) = 1
   \<and> soul (the (recognize_partner_icon SCENARIO_URA example_rp example_img
      (448, 146, 516, 220))) = - 1"
proof -
  let ?a = "recognize_partner_icon SCENARIO_AOHARU example_rp
      burst_img (448, 147, 516, 220)"
  let ?u = "recognize_partner_icon SCENARIO_URA example_rp example_img (448, 146, 516, 220)"
  have m: "icon_marks SCENARIO_AOHARU burst_icon = (1, True, True)"
    by (simp add: icon_marks_def recognize_has_soul_burst_def burst_icon_def blank_icon_def)
  have a: "?a = Some (the ?a)" and b: "has_soul_burst (the ?a)"
    by (simp_all add: recognize_partner_icon_def burst_img_def m Let_def)
  have l: "recognize_partner_level example_rp level2_icon = 2"
    by (simp add: recognize_partner_level_def level_spec_def level_pos_def level_colors_def
        pattern_matches_def level2_icon_def blank_icon_def exact_near_def level2_pixels_def
        example_rp_def Let_def)
  have u: "?u = Some (the ?u)"
    by (simp add: recognize_partner_icon_def example_img_def l Let_def icon_marks_def)
  from partner_soul_burst_flags [OF a] partner_soul_burst_flags [OF u] b
  show ?thesis by simp
qed

subsection \<open>Bond level\<close>

lemma partner_level_loop_range:
  "0 \<le> n \<Longrightarrow>
     partner_level_loop cmp n ss = - 1
     \<or> (n \<le> partner_level_loop cmp n ss \<and> partner_level_loop cmp n ss < n + int (length ss))"
proof (induction ss arbitrary: n)
  case Nil
  then show ?case by simp
next
  case (Cons s rest)
  from Cons.IH [of "n + 1"] Cons.prems show ?case by auto
qed

lemma partner_level_loop_none:
  "0 \<le> n \<Longrightarrow>
     partner_level_loop cmp n ss = - 1 \<longleftrightarrow> (\<forall>s \<in> set ss. \<not> pattern_matches cmp s)"
proof (induction ss arbitrary: n)
  case Nil
  then show ?case by simp
next
  case (Cons s rest)
  from Cons.IH [of "n + 1"] Cons.prems show ?case by auto
qed

lemma partner_level_loop_found:
  "0 \<le> n \<Longrightarrow> k < length ss \<Longrightarrow>
     partner_level_loop cmp n ss = n + int k \<longleftrightarrow>
       pattern_matches cmp (ss ! k) \<and> (\<forall>j<k. \<not> pattern_matches cmp (ss ! j))"
proof (induction ss arbitrary: n k)
  case Nil
  then show ?case by simp
next
  case (Cons s rest)
  show ?case
  proof (cases "pattern_matches cmp s")
    case True
    show ?thesis
    proof (cases k)
      case 0
      then show ?thesis using True by simp
    next
      case (Suc k')
      have "\<not> (\<forall>j<Suc k'. \<not> pattern_matches cmp ((s # rest) ! j))"
        using True by (auto intro: exI [of _ 0])
      then show ?thesis using True Suc by simp
    qed
  next
    case False
    note r = partner_level_loop_range [of "n + 1" cmp rest]
    show ?thesis
    proof (cases k)
      case 0
      then show ?thesis using False r Cons.prems by auto
    next
      case (Suc k')
      then have "k' < length rest" using Cons.prems by simp
      with Cons.IH [of "n + 1" k'] Cons.prems(1)
      have "partner_level_loop cmp (n + 1) rest = n + 1 + int k' \<longleftrightarrow>
          pattern_matches cmp (rest ! k') \<and> (\<forall>j<k'. \<not> pattern_matches cmp (rest ! j))"
        by simp
      moreover have "(\<forall>j<Suc k'. \<not> pattern_matches cmp ((s # rest) ! j))
          \<longleftrightarrow> (\<forall>j<k'. \<not> pattern_matches cmp (rest ! j))"
        using False by (auto simp: less_Suc_eq_0_disj)
      ultimately show ?thesis using False Suc by (simp add: algebra_simps)
    qed
  qed
qed

lemma level_spec_length: "length (level_spec rp) = 6"
  by (simp add: level_spec_def Let_def)

lemma below_6: "k < 6 \<longleftrightarrow> k = 0 \<or> k = 1 \<or> k = 2 \<or> k = 3 \<or> k = 4 \<or> k = (5::nat)"
  by arith

lemma level_spec_first:
  "k < 6 \<Longrightarrow> (level_pos rp ! 0, level_colors ! k) \<in> set (level_spec rp ! k)"
  unfolding below_6 by (auto simp: level_spec_def Let_def)

lemma level_colors_differ:
  "i < 6 \<Longrightarrow> j < 6 \<Longrightarrow> i \<noteq> j \<Longrightarrow> \<not> (i = 1 \<and> j = 2) \<Longrightarrow> \<not> (i = 2 \<and> j = 1) \<Longrightarrow>
     level_colors ! i \<noteq> level_colors ! j"
  unfolding below_6 by (auto simp: level_colors_def)

lemma level_colors_mem: "k < 6 \<Longrightarrow> level_colors ! k \<in> set level_colors"
  by (rule nth_mem) (simp add: level_colors_def)

lemma level_spec_second:
  "(level_pos rp ! 1, level_colors ! 0) \<in> set (level_spec rp ! 1)"
  "(level_pos rp ! 1, level_colors ! 2) \<in> set (level_spec rp ! 2)"
  by (simp_all add: level_spec_def Let_def)

lemma level_colors_0_2: "level_colors ! 0 \<noteq> level_colors ! 2"
  by (simp add: level_colors_def)

lemma level_patterns_differ:
  assumes "i < 6" and "j < 6" and "i \<noteq> j"
  shows "\<exists>p c c'. (p, c) \<in> set (level_spec rp ! i) \<and> (p, c') \<in> set (level_spec rp ! j)
           \<and> c \<in> set level_colors \<and> c' \<in> set level_colors \<and> c \<noteq> c'"
proof -
  consider "i = 1 \<and> j = 2" | "i = 2 \<and> j = 1" | "\<not> (i = 1 \<and> j = 2) \<and> \<not> (i = 2 \<and> j = 1)"
    by blast
  then show ?thesis
  proof cases
    case 1
    then show ?thesis
      using level_spec_second [of rp] level_colors_0_2
        level_colors_mem [of 0] level_colors_mem [of 2]
      by (intro exI [of _ "level_pos rp ! 1"] exI [of _ "level_colors ! 0"]
          exI [of _ "level_colors ! 2"]) simp
  next
    case 2
    then show ?thesis
      using level_spec_second [of rp] level_colors_0_2
        level_colors_mem [of 0] level_colors_mem [of 2]
      by (intro exI [of _ "level_pos rp ! 1"] exI [of _ "level_colors ! 2"]
          exI [of _ "level_colors ! 0"]) simp
  next
    case 3
    then have "level_colors ! i \<noteq> level_colors ! j"
      using assms by (simp add: level_colors_differ)
    then show ?thesis
      using level_spec_first [OF assms(1), of rp] level_spec_first [OF assms(2), of rp]
        level_colors_mem [OF assms(1)] level_colors_mem [OF assms(2)]
      by blast
  qed
qed

lemma pattern_matches_check:
  "pattern_matches cmp s \<Longrightarrow> (p, c) \<in> set s \<Longrightarrow> cmp p (reversed c) > 0.95"
  by (auto simp: pattern_matches_def list_all_iff)

text \<open>
  On an icon where every comparison reports 1, the patterns of level 0 and of level 5
  both match, and the level is 0.
\<close>

theorem recognize_partner_level_counterexample:
  "pattern_matches (near uniform_icon) (level_spec example_rp ! 0)
   \<and> pattern_matches (near uniform_icon) (level_spec example_rp ! 5)
   \<and> recognize_partner_level example_rp uniform_icon = 0"
  by (simp add: recognize_partner_level_def level_spec_def pattern_matches_def
      uniform_icon_def blank_icon_def Let_def)

text \<open>
  Claim C8, amended.  \<^verbatim>\<open>_recognize_partner_level\<close> evaluates six patterns, of the levels 0
  to 5, in ascending order, and the first one that matches wins: the level is \<open>k\<close>
  exactly when the pattern of \<open>k\<close> matches and no pattern of a lower level does.  A
  pattern matches exactly when every one of its checks of an offset against a colour
  has a similarity above 0.95, and the level is -1 exactly when no pattern matches.
  Any two patterns expect different colours at one common offset; they exclude each
  other on an icon where no offset is more than 0.95 similar to two different colours
  of the table.
\<close>

theorem partner_level_decision:
  "length (level_spec rp) = 6
   \<and> (\<forall>s. pattern_matches (near icon) s \<longleftrightarrow>
          (\<forall>(pos, color) \<in> set s. near icon pos (reversed color) > 0.95))
   \<and> (\<forall>k<6. recognize_partner_level rp icon = int k \<longleftrightarrow>
          pattern_matches (near icon) (level_spec rp ! k)
          \<and> (\<forall>j<k. \<not> pattern_matches (near icon) (level_spec rp ! j)))
   \<and> (recognize_partner_level rp icon = - 1 \<longleftrightarrow>
          (\<forall>k<6. \<not> pattern_matches (near icon) (level_spec rp ! k)))
   \<and> (\<forall>i<6. \<forall>j<6. i \<noteq> j \<longrightarrow>
          (\<exists>p c c'. (p, c) \<in> set (level_spec rp ! i) \<and> (p, c') \<in> set (level_spec rp ! j)
             \<and> c \<noteq> c'))
   \<and> ((\<forall>pos. \<forall>c \<in> set level_colors. \<forall>c' \<in> set level_colors. c \<noteq> c' \<longrightarrow>
           \<not> (near icon pos (reversed c) > 0.95 \<and> near icon pos (reversed c') > 0.95))
        \<longrightarrow> (\<forall>i<6. \<forall>j<6. pattern_matches (near icon) (level_spec rp ! i)
               \<and> pattern_matches (near icon) (level_spec rp ! j) \<longrightarrow> i = j))"
proof (intro conjI allI impI)
  show "length (level_spec rp) = 6" by (rule level_spec_length)
next
  fix s
  show "pattern_matches (near icon) s \<longleftrightarrow>
          (\<forall>(pos, color) \<in> set s. near icon pos (reversed color) > 0.95)"
    by (simp add: pattern_matches_def list_all_iff)
next
  fix k :: nat assume "k < 6"
  then have "k < length (level_spec rp)" by (simp add: level_spec_length)
  from partner_level_loop_found [of 0 k "level_spec rp" "near icon", OF _ this]
  show "recognize_partner_level rp icon = int k \<longleftrightarrow>
          pattern_matches (near icon) (level_spec rp ! k)
          \<and> (\<forall>j<k. \<not> pattern_matches (near icon) (level_spec rp ! j))"
    by (simp add: recognize_partner_level_def)
next
  have "recognize_partner_level rp icon = - 1 \<longleftrightarrow>
      (\<forall>s \<in> set (level_spec rp). \<not> pattern_matches (near icon) s)"
    by (simp add: recognize_partner_level_def partner_level_loop_none)
  then show "recognize_partner_level rp icon = - 1 \<longleftrightarrow>
          (\<forall>k<6. \<not> pattern_matches (near icon) (level_spec rp ! k))"
    by (simp add: all_set_conv_all_nth level_spec_length)
next
  fix i j :: nat assume "i < 6" "j < 6" "i \<noteq> j"
  from level_patterns_differ [OF this, of rp]
  show "\<exists>p c c'. (p, c) \<in> set (level_spec rp ! i) \<and> (p, c') \<in> set (level_spec rp ! j)
             \<and> c \<noteq> c'"
    by blast
next
  fix i j :: nat
  assume h: "\<forall>pos. \<forall>c \<in> set level_colors. \<forall>c' \<in> set level_colors. c \<noteq> c' \<longrightarrow>
           \<not> (near icon pos (reversed c) > 0.95 \<and> near icon pos (reversed c') > 0.95)"
    and ij: "i < 6" "j < 6"
    and m: "pattern_matches (near icon) (level_spec rp ! i)
               \<and> pattern_matches (near icon) (level_spec rp ! j)"
  show "i = j"
  proof (rule ccontr)
    assume "i \<noteq> j"
    from level_patterns_differ [OF ij this, of rp]
    obtain p c c' where d: "(p, c) \<in> set (level_spec rp ! i)"
      "(p, c') \<in> set (level_spec rp ! j)"
      "c \<in> set level_colors" "c' \<in> set level_colors" "c \<noteq> c'"
      by blast
    have "near icon p (reversed c) > 0.95"
      by (rule pattern_matches_check [OF conjunct1 [OF m] d(1)])
    moreover have "near icon p (reversed c') > 0.95"
      by (rule pattern_matches_check [OF conjunct2 [OF m] d(2)])
    ultimately show False using h d(3,4,5) by blast
  qed
qed

lemma level2_icon_facts:
  "pattern_matches (near level2_icon) (level_spec example_rp ! 2)"
  "\<not> pattern_matches (near level2_icon) (level_spec example_rp ! 0)"
  "\<not> pattern_matches (near level2_icon) (level_spec example_rp ! 1)"
  by (simp_all add: level_spec_def level_pos_def level_colors_def
      pattern_matches_def level2_icon_def blank_icon_def exact_near_def level2_pixels_def
      example_rp_def Let_def)

lemma reversed_inj: "reversed c = reversed c' \<longleftrightarrow> c = c'"
  by (cases c; cases c') auto

lemma exact_near_separates:
  "c \<noteq> c' \<Longrightarrow>
     \<not> (exact_near pixels pos (reversed c) > 0.95 \<and> exact_near pixels pos (reversed c') > 0.95)"
  by (auto simp: exact_near_def reversed_inj split: if_splits)

theorem partner_level_decision_witness:
  "recognize_partner_level example_rp level2_icon = 2
   \<and> \<not> pattern_matches (near level2_icon) (level_spec example_rp ! 4)
   \<and> recognize_partner_level example_rp blank_icon = - 1"
proof -
  note t = partner_level_decision [of example_rp level2_icon]
  have "\<forall>j<2. \<not> pattern_matches (near level2_icon) (level_spec example_rp ! j)"
    using level2_icon_facts(2,3) by (auto simp: less_2_cases_iff)
  moreover have "(2::nat) < 6" by simp
  ultimately have 1: "recognize_partner_level example_rp level2_icon = int 2"
    using t level2_icon_facts(1) by blast
  have n: "near level2_icon = exact_near level2_pixels"
    by (simp add: level2_icon_def blank_icon_def)
  have "\<forall>pos. \<forall>c \<in> set level_colors. \<forall>c' \<in> set level_colors. c \<noteq> c' \<longrightarrow>
           \<not> (near level2_icon pos (reversed c) > 0.95
              \<and> near level2_icon pos (reversed c') > 0.95)"
    unfolding n using exact_near_separates by blast
  with t have ex: "\<forall>i<6. \<forall>j<6. pattern_matches (near level2_icon) (level_spec example_rp ! i)
               \<and> pattern_matches (near level2_icon) (level_spec example_rp ! j) \<longrightarrow> i = j"
    by blast
  have 2: "\<not> pattern_matches (near level2_icon) (level_spec example_rp ! 4)"
    using ex [rule_format, of 2 4] level2_icon_facts(1) by auto
  have "\<forall>k<6. \<not> pattern_matches (near blank_icon) (level_spec example_rp ! k)"
    unfolding all_below_6
    by (simp add: level_spec_def pattern_matches_def blank_icon_def Let_def)
  with partner_level_decision [of example_rp blank_icon]
  have 3: "recognize_partner_level example_rp blank_icon = - 1" by blast
  from 1 2 3 show ?thesis by simp
qed

subsection \<open>Enumeration of the partner icons\<close>

lemma recognize_partner_icon_None_iff:
  "recognize_partner_icon sc rp img bbox = None \<longleftrightarrow>
     recognize_partner_level rp (img bbox) < 0 \<and> fst (icon_marks sc (img bbox)) < 0"
  by (simp add: recognize_partner_icon_def Let_def split: prod.splits)

lemma recognize_partner_icon_Some:
  "recognize_partner_icon sc rp img bbox = Some p \<Longrightarrow>
     icon_bbox p = bbox \<and> level p = recognize_partner_level rp (img bbox)"
  by (auto simp: recognize_partner_icon_def Let_def split: prod.splits if_splits)

lemma partners_loop_break:
  assumes "r < icons_bottom"
  shows "length ps = n \<Longrightarrow>
     (\<forall>k<n. recognize (l, t + int k * off, r, b + int k * off) = Some (ps ! k)) \<Longrightarrow>
     recognize (l, t + int n * off, r, b + int n * off) = None \<Longrightarrow>
     partners_loop recognize off icons_bottom (l, t, r, b) acc = Some (acc @ ps)"
proof (induction ps arbitrary: n t b acc)
  case Nil
  then show ?case using assms by (subst partners_loop.simps) simp
next
  case (Cons p ps)
  obtain n' where n: "n = Suc n'" "length ps = n'" using Cons.prems(1) by auto
  have "recognize (l, t + int 0 * off, r, b + int 0 * off) = Some ((p # ps) ! 0)"
    using Cons.prems(2) n(1) by blast
  then have first: "recognize (l, t, r, b) = Some p" by simp
  have rest: "\<forall>k<n'. recognize (l, (t + off) + int k * off, r, (b + off) + int k * off)
      = Some (ps ! k)"
  proof (intro allI impI)
    fix k assume "k < n'"
    then have "Suc k < n" using n(1) by simp
    with Cons.prems(2)
    have "recognize (l, t + int (Suc k) * off, r, b + int (Suc k) * off)
        = Some ((p # ps) ! Suc k)" by blast
    then show "recognize (l, (t + off) + int k * off, r, (b + off) + int k * off)
        = Some (ps ! k)"
      by (simp add: algebra_simps)
  qed
  have last: "recognize (l, (t + off) + int n' * off, r, (b + off) + int n' * off) = None"
    using Cons.prems(3) n(1) by (simp add: algebra_simps)
  from Cons.IH [OF n(2) rest last]
  have "partners_loop recognize off icons_bottom (l, t + off, r, b + off) (acc @ [p])
      = Some ((acc @ [p]) @ ps)" .
  then show ?case using assms first by (subst partners_loop.simps) simp
qed

text \<open>
  Claim C9.  \<^verbatim>\<open>_recognize_partner_icon\<close> returns \<^verbatim>\<open>None\<close> exactly when the level that is
  recognised and the value of \<^verbatim>\<open>soul\<close> are both negative, and returns a Partner in every
  other case.  In \<^verbatim>\<open>_recognize_partners\<close>, when the icons of the first \<open>n\<close> boxes give
  Partners and the next one gives \<^verbatim>\<open>None\<close>, the loop ends there: the result is those
  \<open>n\<close> Partners, and no exception.
\<close>

theorem partner_icon_none_ends_enumeration:
  "(recognize_partner_icon sc rp img bbox = None \<longleftrightarrow>
      recognize_partner_level rp (img bbox) < 0 \<and> fst (icon_marks sc (img bbox)) < 0)
   \<and> (\<not> (recognize_partner_level rp (img bbox) < 0 \<and> fst (icon_marks sc (img bbox)) < 0) \<longrightarrow>
        (\<exists>p. recognize_partner_icon sc rp img bbox = Some p \<and> icon_bbox p = bbox
           \<and> level p = recognize_partner_level rp (img bbox)))
   \<and> (partner_icon_layout rp sc = Inr ((l, t, r, b), off) \<and> r < rp 578 540
        \<and> length ps = n
        \<and> (\<forall>k<n. recognize_partner_icon sc rp img (l, t + int k * off, r, b + int k * off)
              = Some (ps ! k))
        \<and> recognize_partner_icon sc rp img (l, t + int n * off, r, b + int n * off) = None
       \<longrightarrow> recognize_partners sc rp img = Some (Inr ps))"
proof (intro conjI impI)
  show "recognize_partner_icon sc rp img bbox = None \<longleftrightarrow>
      recognize_partner_level rp (img bbox) < 0 \<and> fst (icon_marks sc (img bbox)) < 0"
    by (rule recognize_partner_icon_None_iff)
next
  assume "\<not> (recognize_partner_level rp (img bbox) < 0 \<and> fst (icon_marks sc (img bbox)) < 0)"
  then have "recognize_partner_icon sc rp img bbox \<noteq> None"
    by (simp add: recognize_partner_icon_None_iff)
  then obtain p where p: "recognize_partner_icon sc rp img bbox = Some p" by blast
  with recognize_partner_icon_Some [OF p]
  show "\<exists>p. recognize_partner_icon sc rp img bbox = Some p \<and> icon_bbox p = bbox
           \<and> level p = recognize_partner_level rp (img bbox)"
    by blast
next
  assume a: "partner_icon_layout rp sc = Inr ((l, t, r, b), off) \<and> r < rp 578 540
        \<and> length ps = n
        \<and> (\<forall>k<n. recognize_partner_icon sc rp img (l, t + int k * off, r, b + int k * off)
              = Some (ps ! k))
        \<and> recognize_partner_icon sc rp img (l, t + int n * off, r, b + int n * off) = None"
  then have a1: "r < rp 578 540" and a2: "length ps = n"
    and a3: "\<forall>k<n. recognize_partner_icon sc rp img (l, t + int k * off, r, b + int k * off)
              = Some (ps ! k)"
    and a4: "recognize_partner_icon sc rp img (l, t + int n * off, r, b + int n * off) = None"
    by blast+
  from partners_loop_break [where recognize = "recognize_partner_icon sc rp img"
      and acc = "[]", OF a1 a2 a3 a4]
  have "partners_loop (recognize_partner_icon sc rp img) off (rp 578 540) (l, t, r, b) []
      = Some ([] @ ps)" .
  then show "recognize_partners sc rp img = Some (Inr ps)"
    using a by (simp add: recognize_partners_def)
qed

lemma example_levels:
  "recognize_partner_level example_rp level2_icon = 2"
  "recognize_partner_level example_rp blank_icon = - 1"
  by (simp_all add: recognize_partner_level_def level_spec_def level_pos_def level_colors_def
      pattern_matches_def level2_icon_def blank_icon_def exact_near_def level2_pixels_def
      example_rp_def Let_def)

theorem partner_icon_none_ends_enumeration_witness:
  "recognize_partner_icon SCENARIO_URA example_rp example_img (448, 236, 516, 310) = None
   \<and> recognize_partners SCENARIO_URA example_rp example_img =
       Some (Inr [\<lparr>icon_bbox = (448, 146, 516, 220), level = 2, soul = - 1, has_hint = False,
                   has_training = False, has_soul_burst = False,
                   ptype = PARTNER_TYPE_OTHER\<rparr>])"
proof -
  let ?p = "\<lparr>icon_bbox = (448, 146, 516, 220), level = 2, soul = - 1, has_hint = False,
             has_training = False, has_soul_burst = False, ptype = PARTNER_TYPE_OTHER\<rparr>"
  note t = partner_icon_none_ends_enumeration [of SCENARIO_URA example_rp example_img
      "(448, 236, 516, 310)" 448 146 516 220 90 "[?p]" 1]
  have lay: "partner_icon_layout example_rp SCENARIO_URA = Inr ((448, 146, 516, 220), 90)"
    by (simp add: partner_icon_layout_def partner_icon_table_def example_rp_def)
  have b: "(516::int) < example_rp 578 540" by (simp add: example_rp_def)
  have ty: "recognize_type_color example_rp level2_icon = PARTNER_TYPE_OTHER"
    by (simp add: recognize_type_color_def type_colors_def level2_icon_def blank_icon_def
        exact_near_def level2_pixels_def example_rp_def)
  have hint: "\<not> recognize_has_hint level2_icon"
    by (simp add: recognize_has_hint_def level2_icon_def blank_icon_def)
  have first: "recognize_partner_icon SCENARIO_URA example_rp example_img (448, 146, 516, 220)
      = Some ?p"
    by (simp add: recognize_partner_icon_def example_img_def example_levels ty hint Let_def
        icon_marks_def)
  have none: "recognize_partner_level example_rp (example_img (448, 236, 516, 310)) < 0
      \<and> fst (icon_marks SCENARIO_URA (example_img (448, 236, 516, 310))) < 0"
    by (simp add: example_img_def example_levels icon_marks_def)
  with t have 1: "recognize_partner_icon SCENARIO_URA example_rp example_img
      (448, 236, 516, 310) = None" by blast
  have "\<forall>k<1. recognize_partner_icon SCENARIO_URA example_rp example_img
      (448, 146 + int k * 90, 516, 220 + int k * 90) = Some ([?p] ! k)"
    using first by simp
  moreover have "recognize_partner_icon SCENARIO_URA example_rp example_img
      (448, 146 + int 1 * 90, 516, 220 + int 1 * 90) = None"
    using 1 by simp
  moreover have "length [?p] = 1" by simp
  ultimately have 2: "recognize_partners SCENARIO_URA example_rp example_img = Some (Inr [?p])"
    using t lay b by blast
  from 1 2 show ?thesis by simp
qed

end
